theory Spec2Isabelle
  imports Complex_Main
begin

section \<open>JavaScript numbers and host functions\<close>

text \<open>
  A JavaScript \<open>number\<close> is read as a real number: the embedding covers the finite
  values and leaves \<open>NaN\<close>, the infinities and rounding error out. An optional field
  (\<open>undefined\<close> or \<open>null\<close> in the data) is an \<open>option\<close>. A truthiness test
  \<open>!x\<close> is written out per type: a string is falsy when absent or empty, a number when
  absent or zero.
\<close>

definition falsy_string :: "string option \<Rightarrow> bool" where
  "falsy_string s = (case s of None \<Rightarrow> True | Some t \<Rightarrow> t = [])"

definition falsy_int :: "int option \<Rightarrow> bool" where
  "falsy_int n = (case n of None \<Rightarrow> True | Some k \<Rightarrow> k = 0)"

text \<open>\<open>a % b\<close> on numbers: the remainder has the sign of the dividend.\<close>

definition js_trunc :: "real \<Rightarrow> int" where
  "js_trunc x = (if 0 \<le> x then \<lfloor>x\<rfloor> else \<lceil>x\<rceil>)"

definition js_rem :: "real \<Rightarrow> real \<Rightarrow> real" where
  "js_rem a b = a - b * of_int (js_trunc (a / b))"

definition js_rem_int :: "int \<Rightarrow> int \<Rightarrow> int" where
  "js_rem_int a b = a - b * js_trunc (of_int a / of_int b)"

text \<open>\<open>Math.round\<close>: the nearest integer, a tie going up.\<close>

definition Math_round :: "real \<Rightarrow> int" where
  "Math_round x = \<lfloor>x + 1 / 2\<rfloor>"

text \<open>\<open>Math.max(...xs)\<close> and \<open>Math.min(...xs)\<close> on a non-empty argument list.\<close>

fun Math_max :: "real list \<Rightarrow> real" where
  "Math_max [] = 0"
| "Math_max (x # xs) = fold max xs x"

fun Math_min :: "real list \<Rightarrow> real" where
  "Math_min [] = 0"
| "Math_min (x # xs) = fold min xs x"

text \<open>\<open>xs.indexOf(v)\<close> where \<open>v\<close> occurs in \<open>xs\<close>: the first position.\<close>

definition indexOf :: "'a list \<Rightarrow> 'a \<Rightarrow> nat" where
  "indexOf xs v = length (takeWhile (\<lambda>x. x \<noteq> v) xs)"

text \<open>Decimal text of an integer, as a template literal prints an integral number.\<close>

definition digit_char :: "nat \<Rightarrow> char" where
  "digit_char d = ''0123456789'' ! d"

fun digits_of :: "nat \<Rightarrow> string" where
  "digits_of n =
     (if n < 10 then [digit_char n]
      else digits_of (n div 10) @ [digit_char (n mod 10)])"

definition show_int :: "int \<Rightarrow> string" where
  "show_int i = (if i < 0 then CHR ''-'' # digits_of (nat (- i)) else digits_of (nat i))"

text \<open>
  Number formatting and date formatting are built into the host; the code only
  concatenates their results, so they are parameters of the embedding.
  \<open>new Date(ms).toISOString()\<close> throws a \<open>RangeError\<close> for a time value outside
  the range of \<open>Date\<close>: it is \<open>None\<close> there.
\<close>

record js_host =
  toFixed :: "nat \<Rightarrow> real \<Rightarrow> string"
  toLocaleString :: "real \<Rightarrow> string"
  numberToString :: "real \<Rightarrow> string"
  toISOString :: "int \<Rightarrow> string option"

section \<open>Perimeter processor\<close>

subsection \<open>Data\<close>

text \<open>A GeoJSON position is \<open>[lon, lat]\<close>; a ring is a list of positions.\<close>

type_synonym position = "real \<times> real"
type_synonym ring = "position list"

datatype fire_geometry = Polygon "ring list" | MultiPolygon "ring list list"

record fire_properties =
  OBJECTID :: int
  YEAR :: int
  FIRE_NAME :: "string option"
  ALARM_DATE :: "int option"
  CONT_DATE :: "int option"
  GIS_ACRES :: "real option"
  IRWINID :: "string option"

record RawFireFeature =
  feature_id :: int
  geometry :: fire_geometry
  properties :: fire_properties

record perimeter_geometry =
  coordinates :: "ring list"
  centroid :: position

record perimeter_temporal =
  alarmDate :: string
  containmentDate :: string
  durationHours :: real

record perimeter_metrics =
  totalAcres :: real
  perimeterKm :: real
  aspectRatio :: real
  compactness :: real

record directional_extent =
  ext_N :: real
  ext_E :: real
  ext_S :: real
  ext_W :: real
  ext_NE :: real
  ext_SE :: real
  ext_SW :: real
  ext_NW :: real
  dominantDirection :: real

record perimeter_growth =
  acresPerHour :: real
  estimatedSpreadRateKmH :: real

record ProcessedPerimeter =
  fireId :: string
  fireName :: string
  p_geometry :: perimeter_geometry
  temporal :: perimeter_temporal
  metrics :: perimeter_metrics
  directionalExtent :: directional_extent
  growthRate :: perimeter_growth

text \<open>
  The geometry library (turf) is not part of the repository. Its functions are
  parameters: \<open>turf_polygon cs\<close> tells whether \<open>turf.polygon(cs)\<close> returns (it throws
  on a malformed ring), the others are the measurements the processor reads.
\<close>

record turf =
  turf_polygon :: "ring list \<Rightarrow> bool"
  turf_area :: "ring list \<Rightarrow> real"
  turf_centroid :: "ring list \<Rightarrow> position"
  turf_length :: "ring list \<Rightarrow> real"
  turf_bearing :: "position \<Rightarrow> position \<Rightarrow> real"
  turf_distance :: "position \<Rightarrow> position \<Rightarrow> real"

subsection \<open>Operations\<close>

definition calculateDuration :: "int \<Rightarrow> int \<Rightarrow> real" where
  "calculateDuration alarm cont = of_int (cont - alarm) / (1000 * 60 * 60)"

text \<open>
  The three ways \<open>processFirePerimeter\<close> returns \<open>null\<close>: the two early returns of the
  validation and the \<open>catch\<close> block.
\<close>

datatype rejection = Incomplete | InvalidDuration | Exception

text \<open>
  \<open>normalizeGeometry\<close>. For a multipolygon every component goes through
  \<open>turf.polygon\<close>, which may throw; an empty multipolygon yields index \<open>-1\<close> and
  undefined coordinates, on which the caller's \<open>turf.polygon\<close> throws.
\<close>

definition normalizeGeometry :: "turf \<Rightarrow> fire_geometry \<Rightarrow> rejection + ring list" where
  "normalizeGeometry t g =
     (case g of
        Polygon cs \<Rightarrow> Inr cs
      | MultiPolygon multiCoords \<Rightarrow>
          (if list_all (turf_polygon t) multiCoords then
             (case multiCoords of
                [] \<Rightarrow> Inl Exception
              | _ \<Rightarrow>
                 (let areas = map (turf_area t) multiCoords;
                      maxIndex = indexOf areas (Math_max areas)
                  in Inr (multiCoords ! maxIndex)))
           else Inl Exception))"

definition angleDiff :: "real \<Rightarrow> real \<Rightarrow> real" where
  "angleDiff normalizedBearing dirBearing =
     min (min \<bar>normalizedBearing - dirBearing\<bar> \<bar>normalizedBearing - dirBearing + 360\<bar>)
         \<bar>normalizedBearing - dirBearing - 360\<bar>"

text \<open>The inner loop over the vertices of the outer ring, for one direction.\<close>

definition maxDistInDir :: "turf \<Rightarrow> position \<Rightarrow> ring \<Rightarrow> real \<Rightarrow> real" where
  "maxDistInDir t cent coords dirBearing =
     fold (\<lambda>coord m.
             let bearing = turf_bearing t cent coord;
                 normalizedBearing = js_rem (bearing + 360) 360
             in if angleDiff normalizedBearing dirBearing \<le> 22.5
                then max m (turf_distance t cent coord) else m)
          coords 0"

text \<open>The eight directions in the order of the object literal: N, NE, E, SE, S, SW, W, NW.\<close>

definition directions :: "real list" where
  "directions = [0, 45, 90, 135, 180, 225, 270, 315]"

text \<open>The outer loop keeps the running maximum and the bearing that reached it.\<close>

definition dominant_step :: "(real \<Rightarrow> real) \<Rightarrow> real \<Rightarrow> real \<times> real \<Rightarrow> real \<times> real" where
  "dominant_step ext dirBearing st =
     (if fst st < ext dirBearing then (ext dirBearing, dirBearing) else st)"

definition calculateDirectionalExtent :: "turf \<Rightarrow> ring \<Rightarrow> position \<Rightarrow> directional_extent" where
  "calculateDirectionalExtent t coords cent =
     (let ext = maxDistInDir t cent coords;
          final = fold (dominant_step ext) directions (0, 0)
      in \<lparr> ext_N = ext 0, ext_E = ext 90, ext_S = ext 180, ext_W = ext 270,
           ext_NE = ext 45, ext_SE = ext 135, ext_SW = ext 225, ext_NW = ext 315,
           dominantDirection = snd final \<rparr>)"

definition calculateAspectRatio :: "directional_extent \<Rightarrow> real" where
  "calculateAspectRatio d =
     (let extents = filter (\<lambda>e. 0 < e)
            [ext_N d, ext_E d, ext_S d, ext_W d, ext_NE d, ext_SE d, ext_SW d, ext_NW d]
      in if extents = [] then 1
         else (let maxExtent = Math_max extents; minExtent = Math_min extents
               in if 0 < minExtent then maxExtent / minExtent else maxExtent))"

definition calculateCompactness :: "real \<Rightarrow> real \<Rightarrow> real" where
  "calculateCompactness areaKm2 perimeter =
     (if perimeter = 0 then 0 else (4 * pi * areaKm2) / (perimeter * perimeter))"

definition acresToKm2 :: "real \<Rightarrow> real" where
  "acresToKm2 acres = acres * 0.00404686"

definition estimateSpreadRate :: "real \<Rightarrow> real \<Rightarrow> real" where
  "estimateSpreadRate acres hours =
     (if hours = 0 then 0
      else (let areaKm2 = acresToKm2 acres; finalRadius = sqrt (areaKm2 / pi)
            in finalRadius / hours))"

text \<open>\<open>properties.IRWINID || `cal_fire_${YEAR_}_${OBJECTID}`\<close>\<close>

definition generate_fireId :: "fire_properties \<Rightarrow> string" where
  "generate_fireId props =
     (case IRWINID props of
        None \<Rightarrow> ''cal_fire_'' @ show_int (YEAR props) @ ''_'' @ show_int (OBJECTID props)
      | Some s \<Rightarrow>
          (if s = [] then ''cal_fire_'' @ show_int (YEAR props) @ ''_'' @ show_int (OBJECTID props)
           else s))"

text \<open>
  The body of \<open>processFirePerimeter\<close>, keeping which exit was taken. An empty list of
  rings has no outer ring: iterating \<open>coordinates[0]\<close> throws. So does printing a
  date out of range. Every exception ends in the \<open>catch\<close> block.
\<close>

definition process_geometry ::
  "turf \<Rightarrow> js_host \<Rightarrow> RawFireFeature \<Rightarrow> string \<Rightarrow> int \<Rightarrow> int \<Rightarrow> real \<Rightarrow> real
     \<Rightarrow> rejection + ProcessedPerimeter" where
  "process_geometry t h feature name alarm cont acres hours =
     (case normalizeGeometry t (geometry feature) of
        Inl e \<Rightarrow> Inl e
      | Inr coords \<Rightarrow>
          (if turf_polygon t coords then
             (case coords of
                [] \<Rightarrow> Inl Exception
              | outer # _ \<Rightarrow>
                 (let cent = turf_centroid t coords;
                      perimeter = turf_length t coords;
                      areaKm2 = acresToKm2 acres;
                      extent = calculateDirectionalExtent t outer cent;
                      props = properties feature
                  in case (toISOString h alarm, toISOString h cont) of
                       (Some alarmIso, Some contIso) \<Rightarrow>
                         Inr \<lparr> fireId = generate_fireId props,
                               fireName = name,
                               p_geometry = \<lparr> coordinates = coords, centroid = cent \<rparr>,
                               temporal = \<lparr> alarmDate = alarmIso,
                                            containmentDate = contIso,
                                            durationHours = hours \<rparr>,
                               metrics = \<lparr> totalAcres = acres, perimeterKm = perimeter,
                                           aspectRatio = calculateAspectRatio extent,
                                           compactness =
                                             calculateCompactness areaKm2 perimeter \<rparr>,
                               directionalExtent = extent,
                               growthRate = \<lparr> acresPerHour = acres / hours,
                                              estimatedSpreadRateKmH =
                                                estimateSpreadRate acres hours \<rparr> \<rparr>
                     | _ \<Rightarrow> Inl Exception))
           else Inl Exception))"

definition processFirePerimeter_exit ::
  "turf \<Rightarrow> js_host \<Rightarrow> RawFireFeature \<Rightarrow> rejection + ProcessedPerimeter" where
  "processFirePerimeter_exit t h feature =
     (let props = properties feature in
      case (FIRE_NAME props, ALARM_DATE props, CONT_DATE props, GIS_ACRES props) of
        (Some name, Some alarm, Some cont, Some acres) \<Rightarrow>
          (if name = [] then Inl Incomplete
           else if alarm = 0 then Inl Incomplete
           else if cont = 0 then Inl Incomplete
           else (let hours = calculateDuration alarm cont
                 in if hours \<le> 0 then Inl InvalidDuration
                    else if 8760 < hours then Inl InvalidDuration
                    else process_geometry t h feature name alarm cont acres hours))
      | _ \<Rightarrow> Inl Incomplete)"

text \<open>What the caller sees: the record or \<open>null\<close>.\<close>

definition processFirePerimeter ::
  "turf \<Rightarrow> js_host \<Rightarrow> RawFireFeature \<Rightarrow> ProcessedPerimeter option" where
  "processFirePerimeter t h feature =
     (case processFirePerimeter_exit t h feature of Inl _ \<Rightarrow> None | Inr p \<Rightarrow> Some p)"

record batch_stats =
  total :: nat
  successful :: nat
  failed :: nat
  skipped :: nat

text \<open>
  The loop of \<open>processAllPerimeters\<close>: the state is the list built so far and the two
  counters. A \<open>null\<close> result is classified by looking at the name and the two dates of
  the feature again.
\<close>

definition batch_step ::
  "turf \<Rightarrow> js_host \<Rightarrow> RawFireFeature \<Rightarrow> ProcessedPerimeter list \<times> nat \<times> nat
     \<Rightarrow> ProcessedPerimeter list \<times> nat \<times> nat" where
  "batch_step t h feature st =
     (case st of (processed, nfailed, nskipped) \<Rightarrow>
        (case processFirePerimeter t h feature of
           Some result \<Rightarrow> (processed @ [result], nfailed, nskipped)
         | None \<Rightarrow>
             (if falsy_string (FIRE_NAME (properties feature)) then (processed, nfailed, nskipped + 1)
              else if falsy_int (ALARM_DATE (properties feature)) then (processed, nfailed, nskipped + 1)
              else if falsy_int (CONT_DATE (properties feature)) then (processed, nfailed, nskipped + 1)
              else (processed, nfailed + 1, nskipped))))"

definition processAllPerimeters ::
  "turf \<Rightarrow> js_host \<Rightarrow> RawFireFeature list \<Rightarrow> ProcessedPerimeter list \<times> batch_stats" where
  "processAllPerimeters t h features =
     (case fold (batch_step t h) features ([], 0, 0) of
        (processed, nfailed, nskipped) \<Rightarrow>
          (processed, \<lparr> total = length features, successful = length processed,
                        failed = nfailed, skipped = nskipped \<rparr>))"

subsection \<open>Concrete records for running the processor\<close>

text \<open>
  A fixed geometry backend and host to run the definitions on concrete records. The
  backend accepts a polygon whose rings are closed and have at least four positions,
  and reports constant measurements: a perimeter of 4 km, every vertex 1 km due north of
  the centroid. The host prints the integer part of a number and the milliseconds of a
  date.
\<close>

definition sample_turf :: turf where
  "sample_turf =
     \<lparr> turf_polygon = list_all (\<lambda>r. 4 \<le> length r \<and> hd r = last r),
       turf_area = (\<lambda>_. 1),
       turf_centroid = (\<lambda>_. (0, 0)),
       turf_length = (\<lambda>_. 4),
       turf_bearing = (\<lambda>_ _. 0),
       turf_distance = (\<lambda>_ _. 1) \<rparr>"

definition sample_host :: js_host where
  "sample_host =
     \<lparr> toFixed = (\<lambda>_ x. show_int \<lfloor>x\<rfloor>),
       toLocaleString = (\<lambda>x. show_int \<lfloor>x\<rfloor>),
       numberToString = (\<lambda>x. show_int \<lfloor>x\<rfloor>),
       toISOString = (\<lambda>ms. Some (show_int ms)) \<rparr>"

definition square_ring :: ring where
  "square_ring = [(0, 0), (1 / 100, 0), (1 / 100, 1 / 100), (0, 1 / 100), (0, 0)]"

text \<open>A complete record: ignition at hour 1, containment ten hours later, 247 acres.\<close>

definition creek_properties :: fire_properties where
  "creek_properties =
     \<lparr> OBJECTID = 7, YEAR = 2020, FIRE_NAME = Some ''CREEK'',
       ALARM_DATE = Some 3600000, CONT_DATE = Some 39600000,
       GIS_ACRES = Some 247, IRWINID = None \<rparr>"

definition creek_feature :: RawFireFeature where
  "creek_feature =
     \<lparr> feature_id = 7, geometry = Polygon [square_ring], properties = creek_properties \<rparr>"

text \<open>The same record with containment half an hour before ignition.\<close>

definition reversed_dates_feature :: RawFireFeature where
  "reversed_dates_feature =
     creek_feature \<lparr> properties := creek_properties \<lparr> CONT_DATE := Some 1800000 \<rparr> \<rparr>"

text \<open>The same record without an acreage.\<close>

definition no_acres_feature :: RawFireFeature where
  "no_acres_feature =
     creek_feature \<lparr> properties := creek_properties \<lparr> GIS_ACRES := None \<rparr> \<rparr>"

text \<open>The same record with a recorded acreage of zero, and with one of 1000 acres.\<close>

definition zero_acres_feature :: RawFireFeature where
  "zero_acres_feature =
     creek_feature \<lparr> properties := creek_properties \<lparr> GIS_ACRES := Some 0 \<rparr> \<rparr>"

definition thousand_acres_feature :: RawFireFeature where
  "thousand_acres_feature =
     creek_feature \<lparr> properties := creek_properties \<lparr> GIS_ACRES := Some 1000 \<rparr> \<rparr>"

text \<open>The bounds of the claimed compactness interval, as a test on a processed record.\<close>

definition compactness_in_unit_interval :: "ProcessedPerimeter \<Rightarrow> bool" where
  "compactness_in_unit_interval p =
     (0 < compactness (metrics p) \<and> compactness (metrics p) \<le> 1)"


section \<open>Text helpers\<close>

text \<open>
  Strings are byte lists. \<open>toLowerCase\<close> is modelled on the ASCII letters,
  \<open>str_includes\<close> is the substring test of the method \<open>includes\<close>, \<open>trim\<close> strips
  ASCII white space, \<open>join\<close> is \<open>Array.prototype.join\<close>.
\<close>

definition toLowerCase_char :: "char \<Rightarrow> char" where
  "toLowerCase_char c =
     (case map_of (zip ''ABCDEFGHIJKLMNOPQRSTUVWXYZ'' ''abcdefghijklmnopqrstuvwxyz'') c of
        Some l \<Rightarrow> l
      | None \<Rightarrow> c)"

definition toLowerCase :: "string \<Rightarrow> string" where
  "toLowerCase s = map toLowerCase_char s"

fun startsWith :: "string \<Rightarrow> string \<Rightarrow> bool" where
  "startsWith s [] = True"
| "startsWith [] (p # ps) = False"
| "startsWith (c # cs) (p # ps) = (c = p \<and> startsWith cs ps)"

fun str_includes :: "string \<Rightarrow> string \<Rightarrow> bool" where
  "str_includes [] pat = (pat = [])"
| "str_includes (c # cs) pat = (startsWith (c # cs) pat \<or> str_includes cs pat)"

definition is_space :: "char \<Rightarrow> bool" where
  "is_space c = List.member [CHR '' '', CHR 0x09, CHR 0x0A, CHR 0x0B, CHR 0x0C, CHR 0x0D] c"

definition trim :: "string \<Rightarrow> string" where
  "trim s = rev (dropWhile is_space (rev (dropWhile is_space s)))"

fun join :: "string \<Rightarrow> string list \<Rightarrow> string" where
  "join sep [] = []"
| "join sep [x] = x"
| "join sep (x # y # ys) = x @ sep @ join sep (y # ys)"

text \<open>
  \<open>text.match(/[^.!?]+[.!?]+/g) || []\<close>: the successive sentences, each a maximal run
  of other characters followed by a maximal run of terminators. The scan carries the
  run read so far and the terminators read after it; terminators with no run before
  them start no match, and a run that reaches the end of the text without a terminator
  is no match.
\<close>

definition is_terminator :: "char \<Rightarrow> bool" where
  "is_terminator c = (c = CHR ''.'' \<or> c = CHR ''!'' \<or> c = CHR ''?'')"

fun scan_sentences :: "string \<Rightarrow> string \<Rightarrow> string \<Rightarrow> string list" where
  "scan_sentences [] body marks = (if marks = [] then [] else [body @ marks])"
| "scan_sentences (c # cs) body marks =
     (if is_terminator c then
        (if body = [] then scan_sentences cs [] [] else scan_sentences cs body (marks @ [c]))
      else
        (if marks = [] then scan_sentences cs (body @ [c]) []
         else (body @ marks) # scan_sentences cs [c] []))"

definition match_sentences :: "string \<Rightarrow> string list" where
  "match_sentences s = scan_sentences s [] []"

section \<open>Terrain metrics and text similarity\<close>

datatype terrain_type = Flat | Gentle | Moderate | Steep | Extreme

text \<open>
  \<open>aspect\<close> is declared a string, but \<open>getTerrainMetrics\<close> stores the result of an
  array read that can be \<open>undefined\<close>; the field is therefore optional here.
\<close>

record TerrainMetrics =
  elevation :: real
  slope :: real
  slopeAngle :: real
  aspect :: "string option"
  aspectDegrees :: real
  nearbyRidgeline :: bool
  ridgelineDistKm :: "real option"
  ridgelineDirection :: "string option"
  terrainType :: terrain_type
  terrain_notes :: "string list"

datatype js_error = TypeError

text \<open>
  \<open>calculateTerrainSimilarity\<close>. Calling \<open>toLowerCase\<close> on an undefined aspect throws.
\<close>

definition calculateTerrainSimilarity :: "TerrainMetrics \<Rightarrow> string \<Rightarrow> js_error + int" where
  "calculateTerrainSimilarity currentMetrics iapText =
     (let lowerText = toLowerCase iapText;
          slopeScore =
            (if 25 < slope currentMetrics
                  \<and> (str_includes lowerText ''steep'' \<or> str_includes lowerText ''rugged'') then 30
             else if 15 < slope currentMetrics \<and> str_includes lowerText ''slope'' then 20
             else if slope currentMetrics < 10
                  \<and> (str_includes lowerText ''flat'' \<or> str_includes lowerText ''level'') then 25
             else 0);
          ridgeScore =
            (if nearbyRidgeline currentMetrics \<and> str_includes lowerText ''ridge'' then 25 else 0);
          keywordScore =
            (if list_ex (str_includes lowerText)
                  [''terrain'', ''topography'', ''elevation'', ''canyon'', ''valley'']
             then 15 else 0)
      in case aspect currentMetrics of
           None \<Rightarrow> Inl TypeError
         | Some a \<Rightarrow>
             (let aspectScore =
                    (if str_includes lowerText (toLowerCase a @ ''-facing'')
                          \<or> str_includes lowerText (toLowerCase a @ '' facing'') then 10 else 0)
              in Inr (min (slopeScore + ridgeScore + keywordScore + aspectScore) 100)))"

section \<open>IAP similarity matcher\<close>

subsection \<open>Data\<close>

text \<open>
  Modelled from the spec: the declarations of \<open>Incident\<close>, \<open>Weather\<close>, \<open>CardType\<close>,
  \<open>IAPData\<close>, \<open>IAPSection\<close> and \<open>IAPInsight\<close> (the module \<open>types\<close>) are not among
  the sources. The records have the fields that the data model of the spec names and
  that the code reads; a field the code tests for presence is optional. \<open>fuelProxy\<close>
  ranges over the four fuel names grass, brush, mixed and chaparral.
\<close>

datatype CardType = evacuation | resources | tactics

record Incident =
  incident_name :: string
  incident_lat :: real
  incident_lon :: real
  fuelProxy :: string
  radiusMeters :: real

record Weather =
  windSpeedMps :: real
  windDirDeg :: real
  humidityPct :: real
  temperatureC :: real

record iap_weather =
  iap_windSpeedMps :: "real option"
  iap_humidityPct :: "real option"

record iap_conditions =
  cond_fuel :: "string option"
  cond_weather :: "iap_weather option"
  cond_acres :: "real option"

record IAPSection =
  section_type :: string
  content :: string

record IAPData =
  iap_id :: string
  incidentName :: string
  conditions :: iap_conditions
  sections :: "IAPSection list"
  county :: "string option"
  rawText :: "string option"
  tacticalLessons :: "string list"

record IAPInsight =
  iapId :: string
  iapName :: string
  relevanceScore :: int
  tacticalSnippet :: string
  sectionType :: string
  reasoning :: "string list"

subsection \<open>Constants\<close>

definition FUEL_COMPATIBILITY_MAP :: "string \<Rightarrow> string list option" where
  "FUEL_COMPATIBILITY_MAP =
     map_of [(''grass'', [''grass'', ''mixed'']),
             (''brush'', [''brush'', ''chaparral'', ''mixed'']),
             (''mixed'', [''mixed'', ''grass'', ''brush'']),
             (''chaparral'', [''chaparral'', ''brush''])]"

fun RELEVANT_SECTIONS :: "CardType \<Rightarrow> string list" where
  "RELEVANT_SECTIONS tactics = [''ICS-202'', ''ICS-204'', ''ICS-220'']"
| "RELEVANT_SECTIONS resources = [''ICS-203'', ''ICS-204'']"
| "RELEVANT_SECTIONS evacuation = [''ICS-202'']"

fun FOCUS_KEYWORDS :: "CardType \<Rightarrow> string list" where
  "FOCUS_KEYWORDS evacuation =
     [''wind'', ''gust'', ''humidity'', ''weather'', ''rapid spread'',
      ''extreme fire behavior'', ''red flag'', ''wind shift'', ''wind-driven'']"
| "FOCUS_KEYWORDS resources =
     [''contained'', ''containment'', ''escaped'', ''successful'', ''effective'',
      ''additional resources'', ''resource'', ''personnel'', ''equipment'', ''initial attack'']"
| "FOCUS_KEYWORDS tactics =
     [''terrain'', ''slope'', ''ridge'', ''topography'', ''uphill'', ''downhill'', ''canyon'',
      ''valley'', ''elevation'', ''natural barrier'', ''road'', ''highway'']"

definition MIN_IAP_SCORE :: int where
  "MIN_IAP_SCORE = 60"

definition MAX_IAP_INSIGHTS :: nat where
  "MAX_IAP_INSIGHTS = 3"

text \<open>\<open>FUEL_COMPATIBILITY_MAP[k]?.str_includes(f)\<close>\<close>

definition fuel_compatible :: "string \<Rightarrow> string \<Rightarrow> bool" where
  "fuel_compatible k f =
     (case FUEL_COMPATIBILITY_MAP k of None \<Rightarrow> False | Some fs \<Rightarrow> List.member fs f)"

subsection \<open>Scoring\<close>

text \<open>The five numbered parts of \<open>calculateIAPSimilarity\<close>, each the amount it adds.\<close>

definition fuel_points :: "Incident \<Rightarrow> IAPData \<Rightarrow> real" where
  "fuel_points incident iap =
     (case cond_fuel (conditions iap) of
        None \<Rightarrow> 0
      | Some f \<Rightarrow>
          (if f = [] then 0
           else if f = fuelProxy incident then 25
           else if fuel_compatible (fuelProxy incident) f then 12
           else 0))"

definition wind_points :: "Weather \<Rightarrow> iap_weather \<Rightarrow> real" where
  "wind_points w iw =
     (case iap_windSpeedMps iw of
        None \<Rightarrow> 0
      | Some v \<Rightarrow>
          (let windDiff = \<bar>windSpeedMps w - v\<bar>
           in if windDiff \<le> 3 then 15 else if windDiff \<le> 7 then 8
              else if windDiff \<le> 12 then 3 else 0))"

definition humidity_points :: "Weather \<Rightarrow> iap_weather \<Rightarrow> real" where
  "humidity_points w iw =
     (case iap_humidityPct iw of
        None \<Rightarrow> 0
      | Some v \<Rightarrow>
          (let humidityDiff = \<bar>humidityPct w - v\<bar>
           in if humidityDiff \<le> 10 then 10 else if humidityDiff \<le> 20 then 5
              else if humidityDiff \<le> 30 then 2 else 0))"

definition weather_points :: "Weather \<Rightarrow> IAPData \<Rightarrow> real" where
  "weather_points w iap =
     (case cond_weather (conditions iap) of
        None \<Rightarrow> 0
      | Some iw \<Rightarrow> wind_points w iw + humidity_points w iw)"

text \<open>
  Incident scale. The acreage is used when truthy. The quotient divides by the larger
  of the two acreages, which is 0 only for a negative recorded acreage and radius 0;
  the quotient is then minus infinity and so is the final score (\<open>None\<close> here).
\<close>

definition scale_points :: "Incident \<Rightarrow> IAPData \<Rightarrow> real option" where
  "scale_points incident iap =
     (case cond_acres (conditions iap) of
        None \<Rightarrow> Some 7
      | Some a \<Rightarrow>
          (if a = 0 then Some 7
           else (let radiusKm = radiusMeters incident / 1000;
                     estimatedAcres = pi * radiusKm * radiusKm * 247.105
                 in if max estimatedAcres a = 0 then None
                    else (let sizeRatio = min estimatedAcres a / max estimatedAcres a
                          in Some (sizeRatio * 15)))))"

definition section_points :: "CardType \<Rightarrow> IAPData \<Rightarrow> real" where
  "section_points cardType iap =
     (let relevantSectionTypes = RELEVANT_SECTIONS cardType;
          hasRelevantSections =
            list_ex (\<lambda>s. List.member relevantSectionTypes (section_type s)) (sections iap)
      in if hasRelevantSections then 25
         else if sections iap \<noteq> [] then 10 else 0)"

definition terrain_points ::
  "CardType \<Rightarrow> IAPData \<Rightarrow> TerrainMetrics option \<Rightarrow> js_error + real" where
  "terrain_points cardType iap terrain =
     (if cardType = tactics then
        (case terrain of
           None \<Rightarrow> Inr 0
         | Some tm \<Rightarrow>
             (case rawText iap of
                None \<Rightarrow> Inr 0
              | Some txt \<Rightarrow>
                  (if txt = [] then Inr 0
                   else (case calculateTerrainSimilarity tm txt of
                           Inl e \<Rightarrow> Inl e
                         | Inr terrainScore \<Rightarrow> Inr (of_int terrainScore / 100 * 20)))))
      else Inr 0)"

datatype similarity = Score int | MinusInfinity

definition calculateIAPSimilarity ::
  "Incident \<Rightarrow> Weather \<Rightarrow> CardType \<Rightarrow> IAPData \<Rightarrow> TerrainMetrics option
     \<Rightarrow> js_error + similarity" where
  "calculateIAPSimilarity incident w cardType iap terrain =
     (case terrain_points cardType iap terrain of
        Inl e \<Rightarrow> Inl e
      | Inr tp \<Rightarrow>
          (case scale_points incident iap of
             None \<Rightarrow> Inr MinusInfinity
           | Some sp \<Rightarrow>
               Inr (Score (Math_round
                 (fuel_points incident iap + weather_points w iap + sp
                    + section_points cardType iap + tp)))))"

subsection \<open>Reasoning bullets\<close>

definition evacuation_reasoning :: "js_host \<Rightarrow> Weather \<Rightarrow> IAPData \<Rightarrow> string list" where
  "evacuation_reasoning h w iap =
     (case cond_weather (conditions iap) of
        None \<Rightarrow> []
      | Some iw \<Rightarrow>
          (case iap_windSpeedMps iw of
             None \<Rightarrow> []
           | Some v \<Rightarrow>
               (if \<bar>windSpeedMps w - v\<bar> \<le> 5
                then [''Similar wind conditions: '' @ toFixed h 1 v
                        @ '' m/s affected containment'']
                else []))
          @ (case iap_humidityPct iw of
               None \<Rightarrow> []
             | Some hp \<Rightarrow>
                 (if hp < 25
                  then [''Low humidity ('' @ numberToString h hp @ ''%) drove rapid spread'']
                  else [])))"

definition resources_reasoning :: "js_host \<Rightarrow> IAPData \<Rightarrow> string list" where
  "resources_reasoning h iap =
     (case cond_acres (conditions iap) of
        None \<Rightarrow> []
      | Some a \<Rightarrow>
          (if a = 0 then []
           else [toLocaleString h a @ '' acre fire - resource patterns applicable'']))
     @ (if list_ex (\<lambda>s. section_type s = ''ICS-203'' \<or> section_type s = ''ICS-204'')
             (sections iap)
        then [''Documented resource assignments and effectiveness''] else [])"

definition tactics_reasoning :: "IAPData \<Rightarrow> string list" where
  "tactics_reasoning iap =
     (case county iap of
        None \<Rightarrow> []
      | Some c \<Rightarrow>
          (if c = [] then [] else [''Similar California terrain in '' @ c @ '' County'']))
     @ (if list_ex (\<lambda>s. section_type s = ''ICS-204'') (sections iap)
        then [''Terrain-based tactical assignments documented''] else [])
     @ (case rawText iap of
          None \<Rightarrow> []
        | Some txt \<Rightarrow>
            (if list_ex (str_includes (toLowerCase txt))
                  [''steep'', ''slope'', ''ridge'', ''terrain'', ''uphill'', ''downhill'']
             then [''IAP describes similar terrain features''] else []))"

definition fuel_reasoning :: "Incident \<Rightarrow> IAPData \<Rightarrow> string list" where
  "fuel_reasoning incident iap =
     (case cond_fuel (conditions iap) of
        None \<Rightarrow> []
      | Some f \<Rightarrow>
          (if f = fuelProxy incident then [''Exact fuel type match: '' @ f]
           else if f \<noteq> [] \<and> fuel_compatible (fuelProxy incident) f
                then [''Compatible fuel: '' @ f]
           else []))"

definition generateReasoning ::
  "js_host \<Rightarrow> Incident \<Rightarrow> Weather \<Rightarrow> IAPData \<Rightarrow> int \<Rightarrow> CardType \<Rightarrow> string list" where
  "generateReasoning h incident w iap score cardType =
     (let focus = (case cardType of
                     evacuation \<Rightarrow> evacuation_reasoning h w iap
                   | resources \<Rightarrow> resources_reasoning h iap
                   | tactics \<Rightarrow> tactics_reasoning iap);
          withFuel = focus @ fuel_reasoning incident iap;
          padded = (if length withFuel < 2
                    then withFuel @ [''Overall relevance: '' @ show_int score @ ''%'']
                    else withFuel)
      in take 3 padded)"

subsection \<open>Snippet extraction\<close>

definition has_focus_keyword :: "CardType \<Rightarrow> string \<Rightarrow> bool" where
  "has_focus_keyword cardType s = list_ex (str_includes (toLowerCase s)) (FOCUS_KEYWORDS cardType)"

definition shorten :: "string \<Rightarrow> string" where
  "shorten snippet = (if 300 < length snippet then take 297 snippet @ ''...'' else snippet)"

definition extractTacticalSnippet :: "IAPSection \<Rightarrow> CardType \<Rightarrow> IAPData \<Rightarrow> string" where
  "extractTacticalSnippet sec cardType iap =
     (let raw = (case rawText iap of
                   None \<Rightarrow> content sec
                 | Some r \<Rightarrow> if r = [] then content sec else r);
          sentences = match_sentences (content sec);
          fromSection = filter (has_focus_keyword cardType) sentences;
          fromLessons =
            (if fromSection = [] \<and> tacticalLessons iap \<noteq> []
             then filter (has_focus_keyword cardType) (tacticalLessons iap)
             else fromSection);
          relevantSentences =
            (if fromLessons = [] \<and> raw \<noteq> []
             then take 3 (filter (has_focus_keyword cardType) (match_sentences raw))
             else fromLessons)
      in if relevantSentences \<noteq> []
         then shorten (trim (join '' '' (take 2 relevantSentences)))
         else shorten (trim (join '' '' (take 2 sentences))))"

subsection \<open>Matching\<close>

text \<open>
  \<open>iapData.map(...)\<close>: the scores in order; an exception in one call ends the whole
  search.
\<close>

fun score_all ::
  "Incident \<Rightarrow> Weather \<Rightarrow> CardType \<Rightarrow> TerrainMetrics option \<Rightarrow> IAPData list
     \<Rightarrow> js_error + (IAPData \<times> similarity) list" where
  "score_all incident w cardType terrain [] = Inr []"
| "score_all incident w cardType terrain (iap # rest) =
     (case calculateIAPSimilarity incident w cardType iap terrain of
        Inl e \<Rightarrow> Inl e
      | Inr s \<Rightarrow>
          (case score_all incident w cardType terrain rest of
             Inl e \<Rightarrow> Inl e
           | Inr ss \<Rightarrow> Inr ((iap, s) # ss)))"

text \<open>\<open>.filter(s => s.score >= MIN_IAP_SCORE)\<close>; minus infinity is below the threshold.\<close>

fun above_threshold :: "IAPData \<times> similarity \<Rightarrow> (IAPData \<times> int) option" where
  "above_threshold (iap, Score n) = (if MIN_IAP_SCORE \<le> n then Some (iap, n) else None)"
| "above_threshold (iap, MinusInfinity) = None"

text \<open>
  \<open>.sort((a, b) => b.score - a.score)\<close>: a stable sort, highest score first.
\<close>

definition sort_by_score_desc :: "(IAPData \<times> int) list \<Rightarrow> (IAPData \<times> int) list" where
  "sort_by_score_desc xs = sort_key (\<lambda>p. - snd p) xs"

text \<open>
  The body of the loop: the first section of a relevant type, else the first section;
  a record without sections is passed over.
\<close>

definition relevant_section :: "CardType \<Rightarrow> IAPData \<Rightarrow> IAPSection option" where
  "relevant_section cardType iap =
     (case find (\<lambda>s. List.member (RELEVANT_SECTIONS cardType) (section_type s)) (sections iap) of
        Some s \<Rightarrow> Some s
      | None \<Rightarrow> (case sections iap of [] \<Rightarrow> None | s0 # _ \<Rightarrow> Some s0))"

definition make_insight ::
  "js_host \<Rightarrow> Incident \<Rightarrow> Weather \<Rightarrow> CardType \<Rightarrow> IAPData \<times> int \<Rightarrow> IAPInsight option" where
  "make_insight h incident w cardType p =
     (case p of (iap, score) \<Rightarrow>
        (case relevant_section cardType iap of
           None \<Rightarrow> None
         | Some relevantSection \<Rightarrow>
             Some \<lparr> iapId = iap_id iap,
                    iapName = incidentName iap,
                    relevanceScore = score,
                    tacticalSnippet = extractTacticalSnippet relevantSection cardType iap,
                    sectionType = section_type relevantSection,
                    reasoning = generateReasoning h incident w iap score cardType \<rparr>))"

text \<open>
  \<open>findRelevantIAPs\<close>; the loaded IAP collection is the parameter \<open>iapData\<close>.
\<close>

definition findRelevantIAPs ::
  "js_host \<Rightarrow> IAPData list \<Rightarrow> Incident \<Rightarrow> Weather \<Rightarrow> CardType \<Rightarrow> TerrainMetrics option
     \<Rightarrow> js_error + IAPInsight list" where
  "findRelevantIAPs h iapData incident w cardType terrain =
     (if iapData = [] then Inr []
      else (case score_all incident w cardType terrain iapData of
              Inl e \<Rightarrow> Inl e
            | Inr scored \<Rightarrow>
                (let filtered = sort_by_score_desc (List.map_filter above_threshold scored)
                 in Inr (List.map_filter (make_insight h incident w cardType)
                           (take MAX_IAP_INSIGHTS filtered)))))"

subsection \<open>Concrete incidents and IAP records\<close>

definition grass_incident :: Incident where
  "grass_incident =
     \<lparr> incident_name = ''Oak Fire'', incident_lat = 37, incident_lon = - 120,
       fuelProxy = ''grass'', radiusMeters = 1000 \<rparr>"

definition brush_incident :: Incident where
  "brush_incident = grass_incident \<lparr> fuelProxy := ''brush'' \<rparr>"

definition dry_wind :: Weather where
  "dry_wind = \<lparr> windSpeedMps = 12, windDirDeg = 270, humidityPct = 15, temperatureC = 30 \<rparr>"

definition steep_terrain :: TerrainMetrics where
  "steep_terrain =
     \<lparr> elevation = 500, slope = 30, slopeAngle = 17, aspect = Some ''S'', aspectDegrees = 180,
       nearbyRidgeline = True, ridgelineDistKm = Some 1, ridgelineDirection = Some ''N'',
       terrainType = Steep, terrain_notes = [] \<rparr>"

text \<open>
  A chaparral fire (not a fuel compatible with grass) of unrecorded size with similar
  weather, an objectives section, no county, and a text that mentions none of the words
  of the terrain test of the reasoning.
\<close>

definition rugged_iap :: IAPData where
  "rugged_iap =
     \<lparr> iap_id = ''iap-rugged'', incidentName = ''Rugged Fire'',
       conditions = \<lparr> cond_fuel = Some ''chaparral'',
                      cond_weather = Some \<lparr> iap_windSpeedMps = Some 10,
                                            iap_humidityPct = Some 18 \<rparr>,
                      cond_acres = None \<rparr>,
       sections = [\<lparr> section_type = ''ICS-202'',
                     content = ''Protect the canyon road. Hold the line!'' \<rparr>],
       county = None,
       rawText = Some ''Rugged canyon country, S-facing.'',
       tacticalLessons = [] \<rparr>"

text \<open>A record with no conditions and one section of another type.\<close>

definition bare_iap :: IAPData where
  "bare_iap =
     \<lparr> iap_id = ''iap-bare'', incidentName = ''Bare Fire'',
       conditions = \<lparr> cond_fuel = None, cond_weather = None, cond_acres = None \<rparr>,
       sections = [\<lparr> section_type = ''ICS-205'', content = ''Radio plan.'' \<rparr>],
       county = None, rawText = None, tacticalLessons = [] \<rparr>"

text \<open>A grass fire with similar weather, an assignments section and a short text.\<close>

definition valley_iap :: IAPData where
  "valley_iap =
     \<lparr> iap_id = ''iap-valley'', incidentName = ''Valley Fire'',
       conditions = \<lparr> cond_fuel = Some ''grass'',
                      cond_weather = Some \<lparr> iap_windSpeedMps = Some 10,
                                            iap_humidityPct = Some 18 \<rparr>,
                      cond_acres = None \<rparr>,
       sections = [\<lparr> section_type = ''ICS-204'', content = ''Dozers work the valley floor.'' \<rparr>],
       county = Some ''Butte'',
       rawText = Some ''Valley floor.'',
       tacticalLessons = [] \<rparr>"

text \<open>
  A brush fire of 700 acres with similar weather, an assignments section, and a text
  that matches the steep, ridged, south-facing terrain.
\<close>

definition canyon_iap :: IAPData where
  "canyon_iap =
     \<lparr> iap_id = ''iap-canyon'', incidentName = ''Canyon Fire'',
       conditions = \<lparr> cond_fuel = Some ''brush'',
                      cond_weather = Some \<lparr> iap_windSpeedMps = Some 10,
                                            iap_humidityPct = Some 18 \<rparr>,
                      cond_acres = Some 700 \<rparr>,
       sections = [\<lparr> section_type = ''ICS-204'', content = ''Hold the ridge road.'' \<rparr>],
       county = Some ''Butte'',
       rawText = Some ''Steep terrain with a ridge on the S-facing side.'',
       tacticalLessons = [] \<rparr>"

text \<open>The claimed range of the score, as a test on the result of the scorer.\<close>

definition score_in_0_100 :: "js_error + similarity \<Rightarrow> bool" where
  "score_in_0_100 r = (case r of Inr (Score n) \<Rightarrow> 0 \<le> n \<and> n \<le> 100 | _ \<Rightarrow> False)"

section \<open>Terrain analyzer\<close>

text \<open>
  \<open>degreesToCardinal\<close>: the index is \<open>Math.round(degrees / 45) % 8\<close>; for a negative
  index the array read is \<open>undefined\<close>.
\<close>

definition cardinal_names :: "string list" where
  "cardinal_names = [''N'', ''NE'', ''E'', ''SE'', ''S'', ''SW'', ''W'', ''NW'']"

definition degreesToCardinal :: "real \<Rightarrow> string option" where
  "degreesToCardinal degrees =
     (let index = js_rem_int (Math_round (degrees / 45)) 8
      in if 0 \<le> index \<and> index < 8 then Some (cardinal_names ! nat index) else None)"

text \<open>\<open>Math.atan2(y, x)\<close> on finite arguments.\<close>

definition atan2 :: "real \<Rightarrow> real \<Rightarrow> real" where
  "atan2 y x =
     (if 0 < x then arctan (y / x)
      else if x < 0 then (if 0 \<le> y then arctan (y / x) + pi else arctan (y / x) - pi)
      else if 0 < y then pi / 2
      else if y < 0 then - (pi / 2)
      else 0)"

definition dz_dx :: "real \<Rightarrow> real \<Rightarrow> real \<Rightarrow> real" where
  "dz_dx eastElev westElev cellSize = (eastElev - westElev) / (2 * cellSize)"

definition dz_dy :: "real \<Rightarrow> real \<Rightarrow> real \<Rightarrow> real" where
  "dz_dy northElev southElev cellSize = (northElev - southElev) / (2 * cellSize)"

record aspect_result =
  degrees :: real
  direction :: "string option"

text \<open>
  \<open>calculateAspect\<close>. With a cell size of 0 the gradients are infinite or \<open>NaN\<close>, which
  the embedding does not represent: the result is \<open>None\<close> there.
\<close>

definition calculateAspect ::
  "real \<Rightarrow> real \<Rightarrow> real \<Rightarrow> real \<Rightarrow> real \<Rightarrow> real \<Rightarrow> aspect_result option" where
  "calculateAspect centerElev northElev southElev eastElev westElev cellSize =
     (if cellSize = 0 then None
      else (let gx = dz_dx eastElev westElev cellSize;
                gy = dz_dy northElev southElev cellSize;
                aspectRad = atan2 gy (- gx);
                aspectDeg = js_rem (90 - aspectRad * 180 / pi + 360) 360;
                slopeGradient = sqrt (gx * gx + gy * gy)
            in if slopeGradient < 0.01 then Some \<lparr> degrees = 0, direction = Some ''flat'' \<rparr>
               else Some \<lparr> degrees = aspectDeg, direction = degreesToCardinal aspectDeg \<rparr>))"

definition categorizeSlope :: "real \<Rightarrow> terrain_type" where
  "categorizeSlope slopePercent =
     (if slopePercent < 5 then Flat
      else if slopePercent < 15 then Gentle
      else if slopePercent < 30 then Moderate
      else if slopePercent < 50 then Steep
      else Extreme)"

text \<open>An optional string inside a template literal.\<close>

definition show_optional :: "string option \<Rightarrow> string" where
  "show_optional s = (case s of None \<Rightarrow> ''undefined'' | Some v \<Rightarrow> v)"

definition generateTerrainNotes :: "js_host \<Rightarrow> TerrainMetrics \<Rightarrow> string list" where
  "generateTerrainNotes h m =
     (if 30 < slope m then [''Steep terrain - fire can spread 3-5x faster uphill'']
      else if 15 < slope m then [''Moderate slopes increase uphill fire spread rate by 2-3x'']
      else [])
     @ (case aspect m of
          None \<Rightarrow> []
        | Some a \<Rightarrow>
            (if List.member [''S'', ''SW'', ''SE''] a
             then [a @ ''-facing slope receives more sun exposure - expect drier fuels'']
             else []))
     @ (case ridgelineDistKm m of
          None \<Rightarrow> []
        | Some d \<Rightarrow>
            (if nearbyRidgeline m \<and> d \<noteq> 0
             then [''Ridgeline '' @ toFixed h 1 d @ ''km '' @ show_optional (ridgelineDirection m)
                     @ '' - potential natural control line'']
             else []))"

text \<open>
  \<open>Math.random()\<close> reads a hidden generator. The generator is explicit here: an
  infinite sequence of draws, each in \<open>[0, 1)\<close>, and the position of the next one.
\<close>

type_synonym random_state = "(nat \<Rightarrow> real) \<times> nat"

definition Math_random :: "random_state \<Rightarrow> real \<times> random_state" where
  "Math_random st = (fst st (snd st), (fst st, Suc (snd st)))"

text \<open>
  \<open>getTerrainMetrics\<close>, the placeholder implementation: it returns the metrics and the
  state of the generator after the call. The second draw is made only when the slope
  is above 20, the third and the fourth only when a ridge was drawn.
\<close>

definition getTerrainMetrics ::
  "js_host \<Rightarrow> real \<Rightarrow> real \<Rightarrow> random_state \<Rightarrow> TerrainMetrics \<times> random_state" where
  "getTerrainMetrics h lat lon st =
     (let mockElevation = 200 + \<bar>lat - 37\<bar> * 100;
          (r1, st1) = Math_random st;
          mockSlope = 10 + r1 * 20;
          mockAspectDeg = js_rem (lon * 10) 360;
          mockAspect = degreesToCardinal mockAspectDeg;
          (mockNearbyRidge, st2) =
             (if 20 < mockSlope
              then (let (r2, s2) = Math_random st1 in (0.6 < r2, s2))
              else (False, st1));
          (mockRidgeDist, st3) =
             (if mockNearbyRidge
              then (let (r3, s3) = Math_random st2 in (Some (0.5 + r3 * 1.5), s3))
              else (None, st2));
          (mockRidgeDir, st4) =
             (if mockNearbyRidge
              then (let (r4, s4) = Math_random st3 in (degreesToCardinal (r4 * 360), s4))
              else (None, st3));
          m = \<lparr> elevation = mockElevation,
                slope = mockSlope,
                slopeAngle = arctan (mockSlope / 100) * 180 / pi,
                aspect = mockAspect,
                aspectDegrees = mockAspectDeg,
                nearbyRidgeline = mockNearbyRidge,
                ridgelineDistKm = mockRidgeDist,
                ridgelineDirection = mockRidgeDir,
                terrainType = categorizeSlope mockSlope,
                terrain_notes = [] \<rparr>
      in (m \<lparr> terrain_notes := generateTerrainNotes h m \<rparr>, st4))"

text \<open>Two generators: one that always draws 0, one that always draws 1/2.\<close>

definition draws_zero :: random_state where
  "draws_zero = ((\<lambda>_. 0), 0)"

definition draws_half :: random_state where
  "draws_half = ((\<lambda>_. 1 / 2), 0)"

text \<open>Agreement of two generator states on their next \<open>k\<close> draws.\<close>

definition same_draws :: "nat \<Rightarrow> random_state \<Rightarrow> random_state \<Rightarrow> bool" where
  "same_draws k s1 s2 = list_all (\<lambda>i. fst s1 (snd s1 + i) = fst s2 (snd s2 + i)) [0..<k]"

section \<open>Spread index and predictor\<close>

subsection \<open>Data\<close>

record fire_bounds =
  bound_north :: real
  bound_south :: real
  bound_east :: real
  bound_west :: real
  centerLat :: real
  centerLon :: real

record fire_extents =
  extent_north :: real
  extent_south :: real
  extent_east :: real
  extent_west :: real

record fire_rates =
  rate_north :: real
  rate_south :: real
  rate_east :: real
  rate_west :: real
  avgRate :: real

record fire_shape =
  shape_aspectRatio :: real
  shape_dominantDirection :: string
  elongation :: real

record DirectionalSpread =
  spread_fireId :: string
  spread_fireName :: string
  year :: int
  spread_acres :: real
  spread_durationHours :: real
  bounds :: fire_bounds
  spread_extents :: fire_extents
  rates :: fire_rates
  shape :: fire_shape

text \<open>
  A grid key is the text \<open>"<gridLat>,<gridLon>"\<close> of two multiples of 0.5 printed
  with one decimal; it is represented by the two integer multiples.
\<close>

type_synonym grid_key = "int \<times> int"

text \<open>
  The index is built once from the dataset and cached; the functions below read it, so
  it is their parameter. Only the location table is read by the radius search.
\<close>

record SpreadIndex =
  byLocation :: "grid_key \<Rightarrow> DirectionalSpread list option"
  all_fires :: "DirectionalSpread list"

subsection \<open>Operations\<close>

definition calculateDistance :: "real \<Rightarrow> real \<Rightarrow> real \<Rightarrow> real \<Rightarrow> real" where
  "calculateDistance lat1 lon1 lat2 lon2 =
     (let R = 6371;
          dLat = ((lat2 - lat1) * pi) / 180;
          dLon = ((lon2 - lon1) * pi) / 180;
          a = sin (dLat / 2) * sin (dLat / 2)
              + cos ((lat1 * pi) / 180) * cos ((lat2 * pi) / 180)
                * sin (dLon / 2) * sin (dLon / 2);
          c = 2 * atan2 (sqrt a) (sqrt (1 - a))
      in R * c)"

definition getGridKey :: "real \<Rightarrow> real \<Rightarrow> grid_key" where
  "getGridKey lat lon = (\<lfloor>lat / 0.5\<rfloor>, \<lfloor>lon / 0.5\<rfloor>)"

text \<open>A \<open>Set\<close> filled in a loop: each new element once, in the order of first insertion.\<close>

definition set_add :: "'a \<Rightarrow> 'a list \<Rightarrow> 'a list" where
  "set_add k ks = (if List.member ks k then ks else ks @ [k])"

definition insertion_ordered :: "'a list \<Rightarrow> 'a list" where
  "insertion_ordered ks = fold set_add ks []"

text \<open>
  \<open>xs.slice(0, limit)\<close> for an integral limit: a negative limit counts from the end.
\<close>

definition slice_to :: "int \<Rightarrow> 'a list \<Rightarrow> 'a list" where
  "slice_to limit xs =
     (if 0 \<le> limit then take (nat limit) xs else take (length xs - nat (- limit)) xs)"

definition center_distance :: "real \<Rightarrow> real \<Rightarrow> DirectionalSpread \<Rightarrow> real" where
  "center_distance lat lon fire =
     calculateDistance lat lon (centerLat (bounds fire)) (centerLon (bounds fire))"

definition grid_keys_around :: "real \<Rightarrow> real \<Rightarrow> real \<Rightarrow> grid_key list" where
  "grid_keys_around lat lon radiusKm =
     (let gridSize = 0.5;
          cellRadius = \<lceil>radiusKm / 50\<rceil>
      in insertion_ordered
           (concat (map (\<lambda>dLat. map (\<lambda>dLon.
               (let checkLat = of_int \<lfloor>lat / gridSize\<rfloor> * gridSize + of_int dLat * gridSize;
                    checkLon = of_int \<lfloor>lon / gridSize\<rfloor> * gridSize + of_int dLon * gridSize
                in getGridKey checkLat checkLon))
              [- cellRadius .. cellRadius]) [- cellRadius .. cellRadius])))"

definition findFiresNearLocation ::
  "SpreadIndex \<Rightarrow> real \<Rightarrow> real \<Rightarrow> real \<Rightarrow> int \<Rightarrow> DirectionalSpread list" where
  "findFiresNearLocation idx lat lon radiusKm limit =
     (let gridKeys = grid_keys_around lat lon radiusKm;
          candidates = concat (map (\<lambda>key. case byLocation idx key of
                                             None \<Rightarrow> []
                                           | Some fires \<Rightarrow> fires) gridKeys);
          items = map (\<lambda>fire. (fire, center_distance lat lon fire)) candidates;
          nearby = slice_to limit
                     (sort_key snd (filter (\<lambda>item. snd item \<le> radiusKm) items))
      in map fst nearby)"

definition findSimilarFires ::
  "SpreadIndex \<Rightarrow> Incident \<Rightarrow> real \<Rightarrow> int \<Rightarrow> DirectionalSpread list" where
  "findSimilarFires idx incident radiusKm limit =
     (let nearby = findFiresNearLocation idx (incident_lat incident) (incident_lon incident)
                     radiusKm (limit * 2);
          sorted_by_year = sort_key (\<lambda>fire. - year fire) nearby
      in slice_to limit sorted_by_year)"

record spread_statistics =
  avgNorthRate :: real
  avgSouthRate :: real
  avgEastRate :: real
  avgWestRate :: real
  stat_dominantDirection :: string
  avgElongation :: real

text \<open>
  The direction counts are a \<open>Map\<close>: a list of pairs in the order of first insertion.
\<close>

definition count_direction :: "string \<Rightarrow> (string \<times> nat) list \<Rightarrow> (string \<times> nat) list" where
  "count_direction dir counts =
     (if List.member (map fst counts) dir
      then map (\<lambda>(d, c). if d = dir then (d, c + 1) else (d, c)) counts
      else counts @ [(dir, 1)])"

definition most_common_step :: "string \<times> nat \<Rightarrow> string \<times> nat \<Rightarrow> string \<times> nat" where
  "most_common_step entry best = (if snd best < snd entry then entry else best)"

definition calculateSpreadStatistics :: "DirectionalSpread list \<Rightarrow> spread_statistics" where
  "calculateSpreadStatistics fires =
     (if fires = [] then
        \<lparr> avgNorthRate = 0, avgSouthRate = 0, avgEastRate = 0, avgWestRate = 0,
          stat_dominantDirection = ''UNKNOWN'', avgElongation = 1 \<rparr>
      else
        (let n = real (length fires);
             directionCounts =
               fold (\<lambda>fire. count_direction (shape_dominantDirection (shape fire))) fires [];
             best = fold most_common_step directionCounts (''UNIFORM'', 0)
         in \<lparr> avgNorthRate = sum_list (map (\<lambda>f. rate_north (rates f)) fires) / n,
              avgSouthRate = sum_list (map (\<lambda>f. rate_south (rates f)) fires) / n,
              avgEastRate = sum_list (map (\<lambda>f. rate_east (rates f)) fires) / n,
              avgWestRate = sum_list (map (\<lambda>f. rate_west (rates f)) fires) / n,
              stat_dominantDirection = fst best,
              avgElongation = sum_list (map (\<lambda>f. elongation (shape f)) fires) / n \<rparr>))"

definition compass_points :: "string list" where
  "compass_points =
     [''N'', ''NNE'', ''NE'', ''ENE'', ''E'', ''ESE'', ''SE'', ''SSE'',
      ''S'', ''SSW'', ''SW'', ''WSW'', ''W'', ''WNW'', ''NW'', ''NNW'']"

definition getCardinalDirection :: "real \<Rightarrow> string option" where
  "getCardinalDirection deg =
     (let index = js_rem_int (Math_round (deg / 22.5)) 16
      in if 0 \<le> index \<and> index < 16 then Some (compass_points ! nat index) else None)"

datatype confidence = High | Medium | Low

text \<open>
  \<open>similarFires.length >= 10 ? "high" : similarFires.length >= 5 ? "medium" : "low"\<close>
\<close>

definition confidence_for :: "nat \<Rightarrow> confidence" where
  "confidence_for n = (if 10 \<le> n then High else if 5 \<le> n then Medium else Low)"

text \<open>The order of the three levels, to speak of escalation.\<close>

fun confidence_rank :: "confidence \<Rightarrow> nat" where
  "confidence_rank Low = 0"
| "confidence_rank Medium = 1"
| "confidence_rank High = 2"

record expected_rates =
  expected_north :: real
  expected_south :: real
  expected_east :: real
  expected_west :: real

record spread_prediction =
  likelyDirection :: string
  expectedRates :: expected_rates
  prediction_confidence :: confidence
  prediction_reasoning :: "string list"

record spread_pattern =
  similarFires :: "DirectionalSpread list"
  prediction :: spread_prediction

text \<open>The two characters that follow the wind bearing in the source text, as bytes.\<close>

definition degree_mark :: string where
  "degree_mark = [CHR 0xC3, CHR 0x82, CHR 0xC2, CHR 0xB0]"

definition predictSpreadPattern ::
  "js_host \<Rightarrow> SpreadIndex \<Rightarrow> Incident \<Rightarrow> real \<Rightarrow> spread_pattern" where
  "predictSpreadPattern h idx incident windDeg =
     (let similar = findSimilarFires idx incident 100 15
      in if length similar = 0 then
           \<lparr> similarFires = [],
             prediction =
               \<lparr> likelyDirection = ''UNKNOWN'',
                 expectedRates = \<lparr> expected_north = 0, expected_south = 0,
                                   expected_east = 0, expected_west = 0 \<rparr>,
                 prediction_confidence = Low,
                 prediction_reasoning = [''No similar historical fires found in the area''] \<rparr> \<rparr>
         else
           (let stats = calculateSpreadStatistics similar;
                windDirCardinal = getCardinalDirection windDeg;
                reasons =
                  [''Found '' @ show_int (int (length similar)) @ '' similar fires within 100km'',
                   ''Historical dominant direction: '' @ stat_dominantDirection stats,
                   ''Current wind from '' @ show_optional windDirCardinal @ '' (''
                     @ numberToString h windDeg @ degree_mark @ '')'',
                   ''Avg expansion rates: N '' @ toFixed h 2 (avgNorthRate stats)
                     @ '' km/h, S '' @ toFixed h 2 (avgSouthRate stats)
                     @ '' km/h, E '' @ toFixed h 2 (avgEastRate stats)
                     @ '' km/h, W '' @ toFixed h 2 (avgWestRate stats) @ '' km/h'']
            in \<lparr> similarFires = similar,
                 prediction =
                   \<lparr> likelyDirection = stat_dominantDirection stats,
                     expectedRates = \<lparr> expected_north = avgNorthRate stats,
                                       expected_south = avgSouthRate stats,
                                       expected_east = avgEastRate stats,
                                       expected_west = avgWestRate stats \<rparr>,
                     prediction_confidence = confidence_for (length similar),
                     prediction_reasoning = reasons \<rparr> \<rparr>))"

subsection \<open>A concrete index\<close>

text \<open>
  Fires whose bounding boxes are centred on the incident of the examples, at
  \<open>(37, -120)\<close>, all filed under the grid cell of that point.
\<close>

definition oak_fire :: "int \<Rightarrow> DirectionalSpread" where
  "oak_fire y =
     \<lparr> spread_fireId = ''CA-'' @ show_int y, spread_fireName = ''OAK'', year = y,
       spread_acres = 100, spread_durationHours = 10,
       bounds = \<lparr> bound_north = 37.1, bound_south = 36.9, bound_east = - 119.9,
                  bound_west = - 120.1, centerLat = 37, centerLon = - 120 \<rparr>,
       spread_extents = \<lparr> extent_north = 11, extent_south = 11, extent_east = 9,
                          extent_west = 9 \<rparr>,
       rates = \<lparr> rate_north = 1.1, rate_south = 1.1, rate_east = 0.9, rate_west = 0.9,
                 avgRate = 1 \<rparr>,
       shape = \<lparr> shape_aspectRatio = 9 / 11, shape_dominantDirection = ''N'',
                 elongation = 11 / 9 \<rparr> \<rparr>"

definition index_of_cell :: "DirectionalSpread list \<Rightarrow> SpreadIndex" where
  "index_of_cell fires =
     \<lparr> byLocation = (\<lambda>key. if key = (74, - 240) then Some fires else None),
       all_fires = fires \<rparr>"

definition five_fires :: "DirectionalSpread list" where
  "five_fires = map oak_fire [2016, 2020, 2018, 2021, 2017]"

section \<open>Properties of the perimeter processor\<close>

subsection \<open>Counting\<close>

lemma batch_fold_counts:
  "fold (batch_step t h) fs (ps, nf, ns) = (ps', nf', ns') \<Longrightarrow>
     length ps' + nf' + ns' = length ps + nf + ns + length fs"
proof (induction fs arbitrary: ps nf ns)
  case Nil
  then show ?case by simp
next
  case (Cons f fs)
  obtain ps1 nf1 ns1 where st: "batch_step t h f (ps, nf, ns) = (ps1, nf1, ns1)"
    by (cases "batch_step t h f (ps, nf, ns)") auto
  then have one: "length ps1 + nf1 + ns1 = length ps + nf + ns + 1"
    by (auto simp: batch_step_def split: option.splits if_splits)
  from Cons.prems st have "fold (batch_step t h) fs (ps1, nf1, ns1) = (ps', nf', ns')"
    by simp
  from Cons.IH [OF this] one show ?case by simp
qed

text \<open>
  Claim C10. For every input feature collection, \<open>processAllPerimeters\<close> conserves
  counts: \<open>stats.total\<close> is the input length, \<open>stats.successful\<close> is the length of the
  returned list, and successful + skipped + failed = total.
\<close>

theorem processAllPerimeters_conserves_counts:
  "total (snd (processAllPerimeters t h features)) = length features \<and>
   successful (snd (processAllPerimeters t h features))
     = length (fst (processAllPerimeters t h features)) \<and>
   successful (snd (processAllPerimeters t h features))
     + skipped (snd (processAllPerimeters t h features))
     + failed (snd (processAllPerimeters t h features))
     = total (snd (processAllPerimeters t h features))"
proof -
  obtain ps nf ns where f: "fold (batch_step t h) features ([], 0, 0) = (ps, nf, ns)"
    by (cases "fold (batch_step t h) features ([], 0, 0)") auto
  from batch_fold_counts [OF f] have "length ps + nf + ns = length features" by simp
  with f show ?thesis by (simp add: processAllPerimeters_def)
qed

subsection \<open>Classification of rejected records\<close>

text \<open>
  The batch loop decides between skipped and failed from the name and the two dates
  alone. A record that has all three and is rejected for its duration or for a missing
  acreage therefore lands in the failed counter, whatever the geometry backend is.
\<close>

lemma invalid_duration_counted_failed:
  assumes "processFirePerimeter_exit t h f = Inl InvalidDuration"
  shows "batch_step t h f (ps, nf, ns) = (ps, nf + 1, ns)"
  using assms
  by (auto simp: batch_step_def processFirePerimeter_def processFirePerimeter_exit_def
        falsy_string_def falsy_int_def Let_def
      split: option.splits if_splits sum.splits)

lemma geometry_exception_counted_failed:
  assumes "processFirePerimeter_exit t h f = Inl Exception"
  shows "batch_step t h f (ps, nf, ns) = (ps, nf + 1, ns)"
  using assms
  by (auto simp: batch_step_def processFirePerimeter_def processFirePerimeter_exit_def
        falsy_string_def falsy_int_def Let_def
      split: option.splits if_splits sum.splits)

text \<open>
  A record that lacks the name or a date is counted as skipped; a record that has them
  and is rejected as incomplete lacks the acreage and is counted as failed.
\<close>

lemma normalizeGeometry_rejects: "normalizeGeometry t g = Inl e \<Longrightarrow> e = Exception"
  by (auto simp: normalizeGeometry_def Let_def split: fire_geometry.splits if_splits list.splits)

lemma process_geometry_rejects:
  "process_geometry t h f name alarm cont a hours = Inl e \<Longrightarrow> e = Exception"
  by (auto simp: process_geometry_def Let_def dest: normalizeGeometry_rejects
      split: sum.splits if_splits list.splits option.splits)

lemma incomplete_with_name_and_dates_counted_failed:
  assumes "processFirePerimeter_exit t h f = Inl Incomplete"
    and "\<not> falsy_string (FIRE_NAME (properties f))"
    and "\<not> falsy_int (ALARM_DATE (properties f))"
    and "\<not> falsy_int (CONT_DATE (properties f))"
  shows "GIS_ACRES (properties f) = None \<and> batch_step t h f (ps, nf, ns) = (ps, nf + 1, ns)"
  using assms
  by (auto simp: batch_step_def processFirePerimeter_def processFirePerimeter_exit_def
        falsy_string_def falsy_int_def Let_def
      dest: process_geometry_rejects
      split: option.splits if_splits)

lemma missing_name_or_date_counted_skipped:
  assumes "falsy_string (FIRE_NAME (properties f)) \<or> falsy_int (ALARM_DATE (properties f))
             \<or> falsy_int (CONT_DATE (properties f))"
  shows "batch_step t h f (ps, nf, ns) = (ps, nf, ns + 1)"
proof -
  have "processFirePerimeter_exit t h f = Inl Incomplete"
    using assms
    by (auto simp: processFirePerimeter_exit_def falsy_string_def falsy_int_def Let_def
        split: option.splits)
  then show ?thesis using assms
    by (auto simp: batch_step_def processFirePerimeter_def)
qed

text \<open>
  Claim C1 (the code at two rejected records). The claim says that a record with an
  invalid duration or without an acreage is counted as skipped and never as failed. On
  the batch of one record with containment before ignition and one record without
  acreage, both rejected by the validation, the code reports failed = 2 and skipped = 0.
\<close>

theorem processAllPerimeters_validation_rejects_counted_failed:
  "processFirePerimeter_exit t h reversed_dates_feature = Inl InvalidDuration \<and>
   processFirePerimeter_exit t h no_acres_feature = Inl Incomplete \<and>
   snd (processAllPerimeters t h [reversed_dates_feature, no_acres_feature])
     = \<lparr> total = 2, successful = 0, failed = 2, skipped = 0 \<rparr>"
proof -
  have a: "processFirePerimeter_exit t h reversed_dates_feature = Inl InvalidDuration"
    by (simp add: processFirePerimeter_exit_def reversed_dates_feature_def creek_feature_def
          creek_properties_def calculateDuration_def)
  have b: "processFirePerimeter_exit t h no_acres_feature = Inl Incomplete"
    by (simp add: processFirePerimeter_exit_def no_acres_feature_def creek_feature_def
          creek_properties_def)
  have c: "batch_step t h reversed_dates_feature ([], 0, 0) = ([], 1, 0)"
    using a
    by (simp add: batch_step_def processFirePerimeter_def reversed_dates_feature_def
          creek_feature_def creek_properties_def falsy_string_def falsy_int_def)
  have d: "batch_step t h no_acres_feature ([], 1, 0) = ([], 2, 0)"
    using b
    by (simp add: batch_step_def processFirePerimeter_def no_acres_feature_def
          creek_feature_def creek_properties_def falsy_string_def falsy_int_def)
  from a b c d show ?thesis by (simp add: processAllPerimeters_def)
qed

subsection \<open>Shape metrics\<close>

lemma Math_max_eq:
  assumes "xs \<noteq> []"
  shows "Math_max xs = Max (set xs)"
proof (cases xs)
  case Nil
  with assms show ?thesis by simp
next
  case (Cons a list)
  then show ?thesis using Max.set_eq_fold [of a list] by simp
qed

lemma Math_min_eq:
  assumes "xs \<noteq> []"
  shows "Math_min xs = Min (set xs)"
proof (cases xs)
  case Nil
  with assms show ?thesis by simp
next
  case (Cons a list)
  then show ?thesis using Min.set_eq_fold [of a list] by simp
qed

lemma calculateAspectRatio_ge_1: "1 \<le> calculateAspectRatio d"
proof -
  define es where "es = filter (\<lambda>e. 0 < e)
      [ext_N d, ext_E d, ext_S d, ext_W d, ext_NE d, ext_SE d, ext_SW d, ext_NW d]"
  show ?thesis
  proof (cases "es = []")
    case True
    then show ?thesis
      unfolding calculateAspectRatio_def es_def [symmetric] by (simp add: Let_def)
  next
    case False
    have pos: "\<forall>e \<in> set es. 0 < e" by (auto simp: es_def)
    have mn: "Math_min es \<in> set es" using False by (simp add: Math_min_eq)
    then have mnpos: "0 < Math_min es" using pos by blast
    have "Math_min es \<le> Math_max es" using False by (simp add: Math_min_eq Math_max_eq)
    then have "1 \<le> Math_max es / Math_min es" using mnpos by (simp add: le_divide_eq)
    then show ?thesis using False mnpos
      unfolding calculateAspectRatio_def es_def [symmetric] by (simp add: Let_def)
  qed
qed

lemma calculateAspectRatio_no_extent:
  assumes "ext_N d \<le> 0" "ext_E d \<le> 0" "ext_S d \<le> 0" "ext_W d \<le> 0"
    and "ext_NE d \<le> 0" "ext_SE d \<le> 0" "ext_SW d \<le> 0" "ext_NW d \<le> 0"
  shows "calculateAspectRatio d = 1"
  using assms by (simp add: calculateAspectRatio_def)

lemma processFirePerimeter_metrics:
  assumes "processFirePerimeter t h f = Some p"
  shows "aspectRatio (metrics p) = calculateAspectRatio (directionalExtent p)"
    and "compactness (metrics p)
           = calculateCompactness (acresToKm2 (totalAcres (metrics p))) (perimeterKm (metrics p))"
    and "GIS_ACRES (properties f) = Some (totalAcres (metrics p))"
  using assms
  by (auto simp: processFirePerimeter_def processFirePerimeter_exit_def process_geometry_def
        Let_def
      split: sum.splits option.splits if_splits list.splits)

lemma sample_process_creek:
  "processFirePerimeter sample_turf sample_host
       (creek_feature \<lparr> properties := creek_properties \<lparr> GIS_ACRES := Some a \<rparr> \<rparr>) \<noteq> None"
  by (simp add: processFirePerimeter_def processFirePerimeter_exit_def process_geometry_def
        normalizeGeometry_def creek_feature_def creek_properties_def calculateDuration_def
        sample_turf_def sample_host_def square_ring_def Let_def)

text \<open>
  Claim C3 as stated fails: the compactness of an accepted record need not lie in
  \<open>(0, 1]\<close>. The area is the recorded acreage, not the area of the polygon, so a
  record with acreage 0 has compactness 0, and a record of 1000 acres around a ring of
  4 km has a compactness above 1.
\<close>

theorem compactness_outside_unit_interval:
  "map_option compactness_in_unit_interval
      (processFirePerimeter sample_turf sample_host zero_acres_feature) = Some False \<and>
   map_option compactness_in_unit_interval
      (processFirePerimeter sample_turf sample_host thousand_acres_feature) = Some False"
proof -
  obtain p where p: "processFirePerimeter sample_turf sample_host zero_acres_feature = Some p"
    using sample_process_creek [of 0] by (auto simp: zero_acres_feature_def)
  have "totalAcres (metrics p) = 0"
    using processFirePerimeter_metrics(3) [OF p]
    by (simp add: zero_acres_feature_def creek_feature_def creek_properties_def)
  then have "compactness (metrics p) = 0"
    using processFirePerimeter_metrics(2) [OF p]
    by (simp add: calculateCompactness_def acresToKm2_def)
  then have z: "\<not> compactness_in_unit_interval p"
    by (simp add: compactness_in_unit_interval_def)
  obtain q where q: "processFirePerimeter sample_turf sample_host thousand_acres_feature = Some q"
    using sample_process_creek [of 1000] by (auto simp: thousand_acres_feature_def)
  have qa: "totalAcres (metrics q) = 1000"
    using processFirePerimeter_metrics(3) [OF q]
    by (simp add: thousand_acres_feature_def creek_feature_def creek_properties_def)
  have ql: "perimeterKm (metrics q) = 4"
    using q
    by (auto simp: processFirePerimeter_def processFirePerimeter_exit_def process_geometry_def
          Let_def sample_turf_def
        split: sum.splits option.splits if_splits list.splits)
  have "compactness (metrics q) = 4 * pi * (1000 * 0.00404686) / 16"
    using processFirePerimeter_metrics(2) [OF q] qa ql
    by (simp add: calculateCompactness_def acresToKm2_def)
  moreover have "1 < 4 * pi * (1000 * 0.00404686) / (16::real)"
    using pi_ge_two by simp
  ultimately have "\<not> compactness_in_unit_interval q"
    by (simp add: compactness_in_unit_interval_def)
  with z p q show ?thesis by simp
qed

text \<open>
  Claim C3 as amended. For every accepted record the aspect ratio is at least 1 (and is
  1 when no directional extent is positive); the compactness is 0 when the perimeter is
  0 and \<open>4\<pi>\<cdot>area / perimeter\<^sup>2\<close> otherwise, with the area taken from the recorded
  acreage, so it is positive when the acreage is positive and the perimeter is not 0.
  No upper bound is claimed.
\<close>

theorem accepted_record_shape_metrics:
  assumes "processFirePerimeter t h f = Some p"
  shows "1 \<le> aspectRatio (metrics p) \<and>
         (list_all (\<lambda>e. e \<le> 0)
            [ext_N (directionalExtent p), ext_E (directionalExtent p),
             ext_S (directionalExtent p), ext_W (directionalExtent p),
             ext_NE (directionalExtent p), ext_SE (directionalExtent p),
             ext_SW (directionalExtent p), ext_NW (directionalExtent p)]
            \<longrightarrow> aspectRatio (metrics p) = 1) \<and>
         (perimeterKm (metrics p) = 0 \<longrightarrow> compactness (metrics p) = 0) \<and>
         (perimeterKm (metrics p) \<noteq> 0 \<longrightarrow>
            compactness (metrics p)
              = 4 * pi * acresToKm2 (totalAcres (metrics p)) / (perimeterKm (metrics p))\<^sup>2) \<and>
         (perimeterKm (metrics p) \<noteq> 0 \<and> 0 < totalAcres (metrics p) \<longrightarrow>
            0 < compactness (metrics p))"
proof -
  note m = processFirePerimeter_metrics [OF assms]
  have a: "1 \<le> aspectRatio (metrics p)" using m(1) calculateAspectRatio_ge_1 by simp
  have b: "list_all (\<lambda>e. e \<le> 0)
            [ext_N (directionalExtent p), ext_E (directionalExtent p),
             ext_S (directionalExtent p), ext_W (directionalExtent p),
             ext_NE (directionalExtent p), ext_SE (directionalExtent p),
             ext_SW (directionalExtent p), ext_NW (directionalExtent p)]
            \<longrightarrow> aspectRatio (metrics p) = 1"
    using m(1) calculateAspectRatio_no_extent [of "directionalExtent p"] by simp
  have c: "perimeterKm (metrics p) = 0 \<longrightarrow> compactness (metrics p) = 0"
    using m(2) by (simp add: calculateCompactness_def)
  have d: "perimeterKm (metrics p) \<noteq> 0 \<longrightarrow>
            compactness (metrics p)
              = 4 * pi * acresToKm2 (totalAcres (metrics p)) / (perimeterKm (metrics p))\<^sup>2"
    using m(2) by (simp add: calculateCompactness_def power2_eq_square)
  have e: "perimeterKm (metrics p) \<noteq> 0 \<and> 0 < totalAcres (metrics p) \<longrightarrow>
            0 < compactness (metrics p)"
  proof
    assume h: "perimeterKm (metrics p) \<noteq> 0 \<and> 0 < totalAcres (metrics p)"
    then have "0 < (perimeterKm (metrics p))\<^sup>2" by simp
    moreover have "0 < 4 * pi * acresToKm2 (totalAcres (metrics p))"
      using h by (simp add: acresToKm2_def)
    ultimately have "0 < 4 * pi * acresToKm2 (totalAcres (metrics p)) / (perimeterKm (metrics p))\<^sup>2"
      by (rule divide_pos_pos [rotated])
    with d h show "0 < compactness (metrics p)" by simp
  qed
  from a b c d e show ?thesis by blast
qed

theorem accepted_record_shape_metrics_witness:
  "map_option (\<lambda>p. 1 \<le> aspectRatio (metrics p) \<and> 0 < compactness (metrics p))
      (processFirePerimeter sample_turf sample_host creek_feature) = Some True"
proof -
  obtain p where p: "processFirePerimeter sample_turf sample_host creek_feature = Some p"
    using sample_process_creek [of 247] by (auto simp: creek_feature_def creek_properties_def)
  have acres: "totalAcres (metrics p) = 247"
    using processFirePerimeter_metrics(3) [OF p]
    by (simp add: creek_feature_def creek_properties_def)
  have len: "perimeterKm (metrics p) = 4"
    using p
    by (auto simp: processFirePerimeter_def processFirePerimeter_exit_def process_geometry_def
          Let_def sample_turf_def
        split: sum.splits option.splits if_splits list.splits)
  from accepted_record_shape_metrics [OF p] acres len
  have "1 \<le> aspectRatio (metrics p) \<and> 0 < compactness (metrics p)" by simp
  with p show ?thesis by simp
qed

section \<open>Properties of the IAP matcher\<close>

lemmas text_eval = toLowerCase_def toLowerCase_char_def is_terminator_def match_sentences_def
  has_focus_keyword_def trim_def is_space_def shorten_def digit_char_def show_int_def

lemmas points_eval = fuel_points_def weather_points_def wind_points_def humidity_points_def
  section_points_def scale_points_def fuel_compatible_def FUEL_COMPATIBILITY_MAP_def
  Math_round_def

subsection \<open>The range of the score\<close>

lemma terrain_similarity_steep_canyon:
  "calculateTerrainSimilarity steep_terrain
     ''Steep terrain with a ridge on the S-facing side.'' = Inr 80"
  by (simp add: calculateTerrainSimilarity_def steep_terrain_def text_eval)

lemma terrain_similarity_steep_rugged:
  "calculateTerrainSimilarity steep_terrain ''Rugged canyon country, S-facing.'' = Inr 55"
  by (simp add: calculateTerrainSimilarity_def steep_terrain_def text_eval)

lemma terrain_similarity_steep_valley:
  "calculateTerrainSimilarity steep_terrain ''Valley floor.'' = Inr 15"
  by (simp add: calculateTerrainSimilarity_def steep_terrain_def text_eval)

lemma size_ratio_canyon:
  fixes e :: real
  assumes "e = pi * 247.105"
  shows "7 / 10 \<le> min e 700 / max e 700"
proof -
  have lo: "494 < e" using assms pi_ge_two by simp
  have hi: "e < 989" using assms pi_less_4 by simp
  show ?thesis
  proof (cases "e \<le> 700")
    case True
    then have "min e 700 / max e 700 = e / 700" by (simp add: min_def max_def)
    with lo show ?thesis by simp
  next
    case False
    then have "min e 700 / max e 700 = 700 / e" by (simp add: min_def max_def)
    moreover have "7 / 10 \<le> 700 / e" using hi lo by (simp add: le_divide_eq)
    ultimately show ?thesis by simp
  qed
qed

text \<open>
  Claim C2 (the code at one input). The claim says the score lies in \<open>[0, 100]\<close>. For a
  tactics card with terrain, an IAP with the same fuel, similar wind and humidity, a
  comparable size, a relevant section and a text matching the terrain scores
  \<open>25 + 15 + 10 + 15\<cdot>ratio + 25 + 16\<close> with a size ratio of at least 0.7, which is
  above 100.
\<close>

theorem calculateIAPSimilarity_above_100:
  "(case calculateIAPSimilarity brush_incident dry_wind tactics canyon_iap (Some steep_terrain) of
      Inr (Score n) \<Rightarrow> 100 < n
    | _ \<Rightarrow> False) \<and>
   \<not> score_in_0_100
       (calculateIAPSimilarity brush_incident dry_wind tactics canyon_iap (Some steep_terrain))"
proof -
  define e :: real where "e = pi * 247.105"
  define r where "r = min e 700 / max e 700"
  have r: "7 / 10 \<le> r" unfolding r_def by (rule size_ratio_canyon [OF e_def])
  have epos: "0 < e" unfolding e_def by simp
  then have mx: "max e 700 \<noteq> 0" by (simp add: max_def)
  have tp: "terrain_points tactics canyon_iap (Some steep_terrain) = Inr 16"
    by (simp add: terrain_points_def canyon_iap_def terrain_similarity_steep_canyon)
  have sp: "scale_points brush_incident canyon_iap = Some (r * 15)"
    using mx
    by (simp add: scale_points_def canyon_iap_def brush_incident_def grass_incident_def
          Let_def e_def r_def)
  have others: "fuel_points brush_incident canyon_iap = 25"
    "weather_points dry_wind canyon_iap = 25" "section_points tactics canyon_iap = 25"
    by (simp_all add: points_eval canyon_iap_def brush_incident_def grass_incident_def
          dry_wind_def)
  have val: "calculateIAPSimilarity brush_incident dry_wind tactics canyon_iap (Some steep_terrain)
               = Inr (Score (Math_round (91 + r * 15)))"
    by (simp add: calculateIAPSimilarity_def tp sp others algebra_simps)
  have "(101::real) \<le> 91 + r * 15 + 1 / 2" using r by simp
  then have "(101::int) \<le> Math_round (91 + r * 15)"
    unfolding Math_round_def by (simp add: le_floor_iff)
  with val show ?thesis by (simp add: score_in_0_100_def)
qed

text \<open>
  What does hold: with a recorded acreage that is not negative, a returned score lies
  between 0 and 106.
\<close>

lemma fuel_points_range: "0 \<le> fuel_points incident iap \<and> fuel_points incident iap \<le> 25"
  by (simp add: fuel_points_def split: option.splits)

lemma weather_points_range: "0 \<le> weather_points w iap \<and> weather_points w iap \<le> 25"
  by (simp add: weather_points_def wind_points_def humidity_points_def Let_def
      split: option.splits)

lemma section_points_range:
  "0 \<le> section_points cardType iap \<and> section_points cardType iap \<le> 25"
  by (simp add: section_points_def Let_def)

lemma scale_points_range:
  assumes "scale_points incident iap = Some sp"
    and "case cond_acres (conditions iap) of None \<Rightarrow> True | Some a \<Rightarrow> 0 \<le> a"
  shows "0 \<le> sp \<and> sp \<le> 15"
proof (cases "cond_acres (conditions iap)")
  case None
  with assms show ?thesis by (simp add: scale_points_def)
next
  case (Some a)
  show ?thesis
  proof (cases "a = 0")
    case True
    with Some assms show ?thesis by (simp add: scale_points_def)
  next
    case False
    define e where "e = pi * (radiusMeters incident / 1000) * (radiusMeters incident / 1000) * 247.105"
    have e0: "0 \<le> e" unfolding e_def by simp
    have a0: "0 < a" using False Some assms(2) by simp
    have mx: "0 < max e a" using a0 by (simp add: max_def)
    define r where "r = min e a / max e a"
    have sp: "sp = r * 15"
      using assms(1) Some False mx by (simp add: scale_points_def Let_def e_def r_def)
    have "0 \<le> min e a" using e0 a0 by (simp add: min_def)
    then have lo: "0 \<le> r" unfolding r_def using mx by simp
    have "min e a \<le> max e a" by simp
    then have hi: "r \<le> 1" unfolding r_def using mx by (simp add: divide_le_eq)
    from lo hi sp show ?thesis by simp
  qed
qed

lemma calculateTerrainSimilarity_range:
  assumes "calculateTerrainSimilarity m body = Inr n"
  shows "0 \<le> n \<and> n \<le> 80"
proof -
  from assms obtain a where a: "aspect m = Some a"
    by (cases "aspect m") (simp_all add: calculateTerrainSimilarity_def Let_def)
  from assms show ?thesis
    unfolding calculateTerrainSimilarity_def Let_def a
    by (auto split: if_splits)
qed

lemma terrain_points_range:
  assumes "terrain_points cardType iap terrain = Inr tp"
  shows "0 \<le> tp \<and> tp \<le> 16"
proof (cases "tp = 0")
  case True
  then show ?thesis by simp
next
  case False
  with assms obtain tm body n where c: "calculateTerrainSimilarity tm body = Inr n"
    and tp: "tp = of_int n / 100 * 20"
    unfolding terrain_points_def
    by (cases "cardType = tactics"; cases terrain; cases "rawText iap";
        cases "the (rawText iap) = []";
        cases "calculateTerrainSimilarity (the terrain) (the (rawText iap))") auto
  from calculateTerrainSimilarity_range [OF c] have "0 \<le> n" "n \<le> 80" by simp_all
  then have "(0::real) \<le> of_int n" "of_int n \<le> (80::real)" by simp_all
  with tp show ?thesis by simp
qed

lemma calculateIAPSimilarity_range:
  assumes "calculateIAPSimilarity incident w cardType iap terrain = Inr (Score n)"
    and "case cond_acres (conditions iap) of None \<Rightarrow> True | Some a \<Rightarrow> 0 \<le> a"
  shows "0 \<le> n \<and> n \<le> 106"
proof -
  from assms(1) obtain tp sp where
    tp: "terrain_points cardType iap terrain = Inr tp" and
    sp: "scale_points incident iap = Some sp" and
    n: "n = Math_round (fuel_points incident iap + weather_points w iap + sp
                          + section_points cardType iap + tp)"
    by (auto simp: calculateIAPSimilarity_def split: sum.splits option.splits)
  define total where
    "total = fuel_points incident iap + weather_points w iap + sp
               + section_points cardType iap + tp"
  have "0 \<le> total \<and> total \<le> 106"
    unfolding total_def
    using fuel_points_range [of incident iap] weather_points_range [of w iap]
      section_points_range [of cardType iap] scale_points_range [OF sp assms(2)]
      terrain_points_range [OF tp]
    by linarith
  then have "0 \<le> Math_round total \<and> Math_round total \<le> 106"
    unfolding Math_round_def by (simp add: floor_le_iff)
  then show ?thesis using n by (simp add: total_def)
qed

subsection \<open>Reasoning bullets\<close>

lemma generateReasoning_length:
  "1 \<le> length (generateReasoning h incident w iap score cardType) \<and>
   length (generateReasoning h incident w iap score cardType) \<le> 3"
  by (simp add: generateReasoning_def Let_def)

lemma rugged_no_bullets:
  "tactics_reasoning rugged_iap = []"
  "fuel_reasoning grass_incident rugged_iap = []"
  by (simp_all add: tactics_reasoning_def fuel_reasoning_def rugged_iap_def
        grass_incident_def fuel_compatible_def FUEL_COMPATIBILITY_MAP_def text_eval)

text \<open>
  Claim C7 (the code at one input). The claim says that between 2 and 3 bullets are
  returned. For a tactics card and an IAP without county, without an assignments section,
  with a text that names no terrain word of the test and with an incompatible fuel, no
  bullet is produced before the padding, the padding adds one, and the result has one
  bullet.
\<close>

theorem generateReasoning_single_bullet:
  "generateReasoning h grass_incident dry_wind rugged_iap 68 tactics
     = [''Overall relevance: 68%''] \<and>
   length (generateReasoning h grass_incident dry_wind rugged_iap 68 tactics) = 1"
proof -
  have before_padding:
    "tactics_reasoning rugged_iap @ fuel_reasoning grass_incident rugged_iap = []"
    by (simp add: rugged_no_bullets)
  have "generateReasoning h grass_incident dry_wind rugged_iap 68 tactics
          = take 3 ([] @ [''Overall relevance: '' @ show_int 68 @ ''%''])"
    using before_padding by (simp add: generateReasoning_def)
  moreover have "show_int 68 = ''68''" by (simp add: show_int_def digit_char_def)
  ultimately show ?thesis by simp
qed

lemma score_rugged:
  "calculateIAPSimilarity grass_incident dry_wind tactics rugged_iap (Some steep_terrain)
     = Inr (Score 68)"
  by (simp add: calculateIAPSimilarity_def terrain_points_def terrain_similarity_steep_rugged
        rugged_iap_def points_eval grass_incident_def dry_wind_def)

lemma score_valley:
  "calculateIAPSimilarity grass_incident dry_wind tactics valley_iap (Some steep_terrain)
     = Inr (Score 85)"
  by (simp add: calculateIAPSimilarity_def terrain_points_def terrain_similarity_steep_valley
        valley_iap_def points_eval grass_incident_def dry_wind_def)

lemma score_bare:
  "calculateIAPSimilarity grass_incident dry_wind tactics bare_iap (Some steep_terrain)
     = Inr (Score 17)"
  by (simp add: calculateIAPSimilarity_def terrain_points_def bare_iap_def points_eval
        grass_incident_def dry_wind_def)

text \<open>The single bullet reaches the caller: the matcher returns this insight.\<close>

lemma findRelevantIAPs_single_bullet:
  "map_sum id (map (\<lambda>i. (relevanceScore i, reasoning i)))
     (findRelevantIAPs h [rugged_iap] grass_incident dry_wind tactics (Some steep_terrain))
   = Inr [(68, [''Overall relevance: 68%''])]"
proof -
  have "relevant_section tactics rugged_iap \<noteq> None"
    by (simp add: relevant_section_def rugged_iap_def)
  then show ?thesis
    by (auto simp: findRelevantIAPs_def score_rugged List.map_filter_def MIN_IAP_SCORE_def
          sort_by_score_desc_def MAX_IAP_INSIGHTS_def make_insight_def
          generateReasoning_def rugged_no_bullets show_int_def digit_char_def)
qed

subsection \<open>The matcher\<close>

lemma above_threshold_Some:
  "above_threshold x = Some (iap, n) \<Longrightarrow> MIN_IAP_SCORE \<le> n"
  by (cases x rule: above_threshold.cases) (auto split: if_splits)

lemma map_filter_above_threshold:
  assumes "p \<in> set (List.map_filter above_threshold scored)"
  shows "MIN_IAP_SCORE \<le> snd p"
proof -
  from assms obtain x where "above_threshold x = Some p"
    by (auto simp: List.map_filter_def)
  then show ?thesis using above_threshold_Some [of x "fst p" "snd p"] by simp
qed

lemma make_insight_score:
  "make_insight h incident w cardType (iap, n) = Some i \<Longrightarrow> relevanceScore i = n"
  by (auto simp: make_insight_def split: option.splits)

lemma map_filter_make_insight_scores:
  "map relevanceScore (List.map_filter (make_insight h incident w cardType) xs)
     = map snd (filter (\<lambda>p. make_insight h incident w cardType p \<noteq> None) xs)"
proof (induction xs)
  case Nil
  show ?case by (simp add: List.map_filter_def)
next
  case (Cons p xs)
  obtain iap n where p: "p = (iap, n)" by (cases p)
  show ?case
  proof (cases "make_insight h incident w cardType p")
    case None
    with Cons show ?thesis by (simp add: List.map_filter_def)
  next
    case (Some i)
    with p have "relevanceScore i = n" using make_insight_score by simp
    with Some Cons p show ?thesis by (simp add: List.map_filter_def)
  qed
qed

lemma length_map_filter_le: "length (List.map_filter f xs) \<le> length xs"
  by (simp add: List.map_filter_def)

lemma sort_by_score_desc_sorted:
  "sorted_wrt (\<lambda>a b. b \<le> a) (map snd (sort_by_score_desc xs))"
proof -
  have "sorted (map (\<lambda>p. - snd p) (sort_by_score_desc xs))"
    unfolding sort_by_score_desc_def by (rule sorted_sort_key)
  then show ?thesis by (simp add: sorted_wrt_map)
qed

lemma sort_by_score_desc_set: "set (sort_by_score_desc xs) = set xs"
  by (simp add: sort_by_score_desc_def)

lemma findRelevantIAPs_result:
  assumes "findRelevantIAPs h iapData incident w cardType terrain = Inr insights"
  shows "length insights \<le> 3 \<and>
         list_all (\<lambda>i. 60 \<le> relevanceScore i) insights \<and>
         sorted_wrt (\<lambda>a b. b \<le> a) (map relevanceScore insights)"
proof (cases "iapData = []")
  case True
  with assms show ?thesis by (simp add: findRelevantIAPs_def)
next
  case False
  with assms obtain scored where
    ins: "insights = List.map_filter (make_insight h incident w cardType)
            (take MAX_IAP_INSIGHTS (sort_by_score_desc (List.map_filter above_threshold scored)))"
    by (auto simp: findRelevantIAPs_def Let_def split: sum.splits)
  define top where
    "top = take MAX_IAP_INSIGHTS (sort_by_score_desc (List.map_filter above_threshold scored))"
  have len: "length top \<le> 3" by (simp add: top_def MAX_IAP_INSIGHTS_def)
  have "length insights \<le> length top"
    unfolding ins top_def [symmetric] by (rule length_map_filter_le)
  with len have a: "length insights \<le> 3" by simp
  have mem: "\<forall>p \<in> set top. 60 \<le> snd p"
  proof
    fix p assume "p \<in> set top"
    then have "p \<in> set (List.map_filter above_threshold scored)"
      unfolding top_def using set_take_subset sort_by_score_desc_set by fastforce
    from map_filter_above_threshold [OF this] show "60 \<le> snd p"
      by (simp add: MIN_IAP_SCORE_def)
  qed
  have scores: "map relevanceScore insights
       = map snd (filter (\<lambda>p. make_insight h incident w cardType p \<noteq> None) top)"
    unfolding ins top_def [symmetric] by (rule map_filter_make_insight_scores)
  have "\<forall>n \<in> set (map relevanceScore insights). 60 \<le> n"
    unfolding scores using mem by auto
  then have b: "list_all (\<lambda>i. 60 \<le> relevanceScore i) insights"
    by (simp add: list_all_iff)
  have "sorted_wrt (\<lambda>a b. b \<le> a) (map snd top)"
    unfolding top_def take_map [symmetric]
    by (rule sorted_wrt_take) (rule sort_by_score_desc_sorted)
  then have "sorted_wrt (\<lambda>a b. snd b \<le> snd a) top" by (simp add: sorted_wrt_map)
  then have "sorted_wrt (\<lambda>a b. snd b \<le> snd a)
               (filter (\<lambda>p. make_insight h incident w cardType p \<noteq> None) top)"
    by (rule sorted_wrt_filter)
  then have c: "sorted_wrt (\<lambda>a b. b \<le> a) (map relevanceScore insights)"
    unfolding scores by (simp add: sorted_wrt_map)
  from a b c show ?thesis by blast
qed

text \<open>
  The search returns (it does not throw) whenever no terrain is passed or the terrain
  has an aspect.
\<close>

lemma calculateTerrainSimilarity_returns:
  assumes "aspect tm = Some a"
  shows "\<not> isl (calculateTerrainSimilarity tm raw)"
  using assms unfolding calculateTerrainSimilarity_def Let_def by simp

lemma terrain_points_returns:
  assumes "terrain = None \<or> (\<exists>tm a. terrain = Some tm \<and> aspect tm = Some a)"
  shows "\<not> isl (terrain_points cardType iap terrain)"
proof (cases terrain)
  case None
  then show ?thesis by (simp add: terrain_points_def)
next
  case (Some tm)
  with assms obtain a where a: "aspect tm = Some a" by auto
  show ?thesis
  proof (cases "rawText iap")
    case None
    with Some show ?thesis by (simp add: terrain_points_def)
  next
    case (Some raw)
    from calculateTerrainSimilarity_returns [OF a, of raw]
    obtain n where "calculateTerrainSimilarity tm raw = Inr n"
      by (cases "calculateTerrainSimilarity tm raw") auto
    with Some \<open>terrain = Some tm\<close> show ?thesis by (simp add: terrain_points_def)
  qed
qed

lemma calculateIAPSimilarity_returns:
  assumes "terrain = None \<or> (\<exists>tm a. terrain = Some tm \<and> aspect tm = Some a)"
  shows "\<not> isl (calculateIAPSimilarity incident w cardType iap terrain)"
proof -
  from terrain_points_returns [OF assms, of cardType iap]
  obtain tp where "terrain_points cardType iap terrain = Inr tp"
    by (cases "terrain_points cardType iap terrain") auto
  then show ?thesis
    by (cases "scale_points incident iap") (simp_all add: calculateIAPSimilarity_def)
qed

lemma score_all_returns:
  assumes "terrain = None \<or> (\<exists>tm a. terrain = Some tm \<and> aspect tm = Some a)"
  shows "\<not> isl (score_all incident w cardType terrain iaps)"
proof (induction iaps)
  case Nil
  show ?case by simp
next
  case (Cons iap iaps)
  from calculateIAPSimilarity_returns [OF assms, of incident w cardType iap]
  obtain s where "calculateIAPSimilarity incident w cardType iap terrain = Inr s"
    by (cases "calculateIAPSimilarity incident w cardType iap terrain") auto
  moreover from Cons obtain ss where "score_all incident w cardType terrain iaps = Inr ss"
    by (cases "score_all incident w cardType terrain iaps") auto
  ultimately show ?case by simp
qed

lemma findRelevantIAPs_returns:
  assumes "terrain = None \<or> (\<exists>tm a. terrain = Some tm \<and> aspect tm = Some a)"
  shows "\<exists>insights. findRelevantIAPs h iapData incident w cardType terrain = Inr insights"
proof -
  from score_all_returns [OF assms, of incident w cardType iapData]
  obtain ss where "score_all incident w cardType terrain iapData = Inr ss"
    by (cases "score_all incident w cardType terrain iapData") auto
  then show ?thesis by (simp add: findRelevantIAPs_def Let_def)
qed

text \<open>
  Claim C4. For every incident, weather, card type, optional terrain and IAP dataset,
  \<open>findRelevantIAPs\<close> returns at most 3 insights, every returned insight has
  \<open>relevanceScore \<ge> 60\<close>, and the returned list is sorted by \<open>relevanceScore\<close>
  descending. It returns whenever no terrain is passed or the terrain has an aspect, as
  the declared type of the terrain metrics requires.
\<close>

theorem findRelevantIAPs_bounded_sorted:
  "(findRelevantIAPs h iapData incident w cardType terrain = Inr insights \<longrightarrow>
      length insights \<le> 3 \<and>
      list_all (\<lambda>i. 60 \<le> relevanceScore i) insights \<and>
      sorted_wrt (\<lambda>a b. b \<le> a) (map relevanceScore insights)) \<and>
   (terrain = None \<or> (\<exists>tm a. terrain = Some tm \<and> aspect tm = Some a) \<longrightarrow>
      (\<exists>returned. findRelevantIAPs h iapData incident w cardType terrain = Inr returned))"
proof (intro conjI impI)
  assume "findRelevantIAPs h iapData incident w cardType terrain = Inr insights"
  from findRelevantIAPs_result [OF this]
  show "length insights \<le> 3"
    and "list_all (\<lambda>i. 60 \<le> relevanceScore i) insights"
    and "sorted_wrt (\<lambda>a b. b \<le> a) (map relevanceScore insights)"
    by simp_all
next
  assume "terrain = None \<or> (\<exists>tm a. terrain = Some tm \<and> aspect tm = Some a)"
  then show "\<exists>returned. findRelevantIAPs h iapData incident w cardType terrain = Inr returned"
    by (rule findRelevantIAPs_returns)
qed

theorem findRelevantIAPs_bounded_sorted_witness:
  "map_sum id (map relevanceScore)
     (findRelevantIAPs sample_host [rugged_iap, bare_iap, valley_iap]
        grass_incident dry_wind tactics (Some steep_terrain)) = Inr [85, 68] \<and>
   (case findRelevantIAPs sample_host [rugged_iap, bare_iap, valley_iap]
           grass_incident dry_wind tactics (Some steep_terrain) of
      Inr insights \<Rightarrow>
        length insights \<le> 3 \<and> list_all (\<lambda>i. 60 \<le> relevanceScore i) insights \<and>
        sorted_wrt (\<lambda>a b. b \<le> a) (map relevanceScore insights)
    | Inl e \<Rightarrow> False)"
proof -
  have r: "relevant_section tactics rugged_iap \<noteq> None"
    by (simp add: relevant_section_def rugged_iap_def)
  have v: "relevant_section tactics valley_iap \<noteq> None"
    by (simp add: relevant_section_def valley_iap_def)
  have "\<exists>insights. findRelevantIAPs sample_host [rugged_iap, bare_iap, valley_iap]
           grass_incident dry_wind tactics (Some steep_terrain) = Inr insights"
    by (rule findRelevantIAPs_returns) (simp add: steep_terrain_def)
  then obtain insights where
    ev: "findRelevantIAPs sample_host [rugged_iap, bare_iap, valley_iap]
           grass_incident dry_wind tactics (Some steep_terrain) = Inr insights"
    by blast
  have "map relevanceScore insights = [85, 68]"
    using ev r v
    by (auto simp: findRelevantIAPs_def score_rugged score_bare score_valley
          List.map_filter_def MIN_IAP_SCORE_def sort_by_score_desc_def MAX_IAP_INSIGHTS_def
          make_insight_def)
  with ev findRelevantIAPs_bounded_sorted
            [of sample_host "[rugged_iap, bare_iap, valley_iap]" grass_incident dry_wind tactics
                "Some steep_terrain" insights]
  show ?thesis by simp
qed

section \<open>Properties of the terrain analyzer\<close>

subsection \<open>Flat aspect\<close>

text \<open>
  Claim C9. For every five elevation samples and cell size, whenever the
  central-difference gradient magnitude \<open>sqrt((dz/dx)\<^sup>2 + (dz/dy)\<^sup>2)\<close> is below 0.01,
  \<open>calculateAspect\<close> reports the sentinel \<open>flat\<close> (with 0 degrees) and no compass
  bearing. The gradient is defined when the cell size is not 0.
\<close>

theorem calculateAspect_flat_below_threshold:
  assumes "cellSize \<noteq> 0"
    and "sqrt ((dz_dx eastElev westElev cellSize)\<^sup>2 + (dz_dy northElev southElev cellSize)\<^sup>2)
           < 0.01"
  shows "calculateAspect centerElev northElev southElev eastElev westElev cellSize
           = Some \<lparr> degrees = 0, direction = Some ''flat'' \<rparr>"
  using assms by (simp add: calculateAspect_def Let_def power2_eq_square)

theorem calculateAspect_flat_below_threshold_witness:
  "calculateAspect 250 251 250 250 249 100 = Some \<lparr> degrees = 0, direction = Some ''flat'' \<rparr>"
proof -
  have g: "(dz_dx 250 249 100)\<^sup>2 + (dz_dy 251 250 100)\<^sup>2 = (1 / 20000 :: real)"
    by (simp add: dz_dx_def dz_dy_def power2_eq_square)
  have "sqrt (1 / 20000 :: real) < sqrt (1 / 10000)"
    by (rule real_sqrt_less_mono) simp
  moreover have "sqrt (1 / 10000 :: real) = 1 / 100"
    by (rule real_sqrt_unique) (simp_all add: power2_eq_square)
  ultimately have "sqrt ((dz_dx 250 249 100)\<^sup>2 + (dz_dy 251 250 100)\<^sup>2) < 0.01"
    unfolding g by simp
  from calculateAspect_flat_below_threshold [OF _ this] show ?thesis by simp
qed

text \<open>Conversely, at or above the threshold the result is one of the eight compass names.\<close>

lemma atan2_bounds: "- pi < atan2 y x \<and> atan2 y x \<le> pi"
proof -
  have a: "- (pi / 2) < arctan (y / x)" "arctan (y / x) < pi / 2"
    by (rule arctan_lbound, rule arctan_ubound)
  consider "0 < x" | "x < 0" "0 \<le> y" | "x < 0" "y < 0" | "x = 0"
    by linarith
  then show ?thesis
  proof cases
    case 1
    with a show ?thesis by (simp add: atan2_def)
  next
    case 2
    then have "y / x \<le> 0" by (simp add: divide_nonneg_neg)
    then have "arctan (y / x) \<le> 0" by simp
    moreover have "atan2 y x = arctan (y / x) + pi" using 2 by (simp add: atan2_def)
    ultimately show ?thesis using a pi_gt_zero by linarith
  next
    case 3
    then have "0 < y / x" by (simp add: divide_neg_neg)
    then have "0 < arctan (y / x)" by simp
    moreover have "atan2 y x = arctan (y / x) - pi" using 3 by (simp add: atan2_def)
    ultimately show ?thesis using a pi_gt_zero by linarith
  next
    case 4
    then have "atan2 y x = pi / 2 \<or> atan2 y x = - (pi / 2) \<or> atan2 y x = 0"
      by (simp add: atan2_def)
    then show ?thesis using pi_gt_zero by linarith
  qed
qed

lemma js_rem_range:
  assumes "0 \<le> a" "0 < b"
  shows "0 \<le> js_rem a b \<and> js_rem a b < b"
proof -
  have q: "0 \<le> a / b" using assms by simp
  have ab: "b * (a / b) = a" using assms by simp
  have "of_int \<lfloor>a / b\<rfloor> \<le> a / b" by simp
  then have "b * of_int \<lfloor>a / b\<rfloor> \<le> b * (a / b)"
    using assms(2) by (intro mult_left_mono) simp_all
  then have lo: "b * of_int \<lfloor>a / b\<rfloor> \<le> a" using ab by simp
  have "a / b < of_int \<lfloor>a / b\<rfloor> + 1" by linarith
  then have "b * (a / b) < b * (of_int \<lfloor>a / b\<rfloor> + 1)"
    using assms(2) by (intro mult_strict_left_mono) simp_all
  then have hi: "a < b * of_int \<lfloor>a / b\<rfloor> + b" using ab by (simp add: algebra_simps)
  have "js_rem a b = a - b * of_int \<lfloor>a / b\<rfloor>"
    using q by (simp add: js_rem_def js_trunc_def)
  with lo hi show ?thesis by simp
qed

lemma degreesToCardinal_in_range:
  assumes "0 \<le> d" "d < 360"
  shows "\<exists>name. degreesToCardinal d = Some name \<and> name \<in> set cardinal_names"
proof -
  define k where "k = Math_round (d / 45)"
  have "0 \<le> k" unfolding k_def Math_round_def using assms by simp
  moreover have "k \<le> 8" unfolding k_def Math_round_def using assms by (simp add: floor_le_iff)
  ultimately have "k \<in> {0, 1, 2, 3, 4, 5, 6, 7, 8}" by auto
  then have "degreesToCardinal d \<in> Some ` set cardinal_names"
    unfolding degreesToCardinal_def k_def [symmetric] Let_def
    by (auto simp: js_rem_int_def js_trunc_def cardinal_names_def)
  then show ?thesis by auto
qed

lemma calculateAspect_at_or_above_threshold:
  assumes "cellSize \<noteq> 0"
    and "0.01 \<le> sqrt ((dz_dx eastElev westElev cellSize)\<^sup>2
                        + (dz_dy northElev southElev cellSize)\<^sup>2)"
  shows "\<exists>d name. calculateAspect centerElev northElev southElev eastElev westElev cellSize
                     = Some \<lparr> degrees = d, direction = Some name \<rparr>
                   \<and> 0 \<le> d \<and> d < 360 \<and> name \<in> set cardinal_names"
proof -
  define rad where
    "rad = atan2 (dz_dy northElev southElev cellSize) (- dz_dx eastElev westElev cellSize)"
  define d where "d = js_rem (90 - rad * 180 / pi + 360) 360"
  have "- pi < rad" "rad \<le> pi" unfolding rad_def using atan2_bounds by simp_all
  then have "- 180 < rad * 180 / pi" "rad * 180 / pi \<le> 180"
    using pi_gt_zero by (simp_all add: pos_less_divide_eq pos_divide_le_eq)
  then have "0 \<le> 90 - rad * 180 / pi + 360" by simp
  from js_rem_range [OF this] have d: "0 \<le> d" "d < 360" unfolding d_def by simp_all
  from degreesToCardinal_in_range [OF d]
  obtain name where n: "degreesToCardinal d = Some name" "name \<in> set cardinal_names" by blast
  have "calculateAspect centerElev northElev southElev eastElev westElev cellSize
          = Some \<lparr> degrees = d, direction = Some name \<rparr>"
    using assms n(1)
    by (simp add: calculateAspect_def Let_def power2_eq_square d_def rad_def)
  with d n(2) show ?thesis by blast
qed

subsection \<open>Determinism\<close>

lemma getTerrainMetrics_located_fields:
  "elevation (fst (getTerrainMetrics h lat lon st)) = 200 + \<bar>lat - 37\<bar> * 100"
  "aspectDegrees (fst (getTerrainMetrics h lat lon st)) = js_rem (lon * 10) 360"
  "aspect (fst (getTerrainMetrics h lat lon st)) = degreesToCardinal (js_rem (lon * 10) 360)"
  "slope (fst (getTerrainMetrics h lat lon st)) = 10 + fst st (snd st) * 20"
  by (simp_all add: getTerrainMetrics_def Let_def split_def Math_random_def)

text \<open>
  Claim C8 as stated fails: the placeholder draws the slope from \<open>Math.random()\<close>, so
  two calls at the same location differ when the generator has moved on. Here the
  slope is 10 after a draw of 0 and 20 after a draw of 1/2.
\<close>

theorem getTerrainMetrics_depends_on_random_draws:
  "fst (getTerrainMetrics sample_host 37 (- 120) draws_zero)
     \<noteq> fst (getTerrainMetrics sample_host 37 (- 120) draws_half)"
proof
  assume "fst (getTerrainMetrics sample_host 37 (- 120) draws_zero)
            = fst (getTerrainMetrics sample_host 37 (- 120) draws_half)"
  then have "slope (fst (getTerrainMetrics sample_host 37 (- 120) draws_zero))
               = slope (fst (getTerrainMetrics sample_host 37 (- 120) draws_half))"
    by simp
  then show False
    by (simp add: getTerrainMetrics_located_fields draws_zero_def draws_half_def)
qed

text \<open>
  Claim C8 as amended. For every location, two calls to \<open>getTerrainMetrics\<close> with the
  same \<open>(lat, lon)\<close> return the same elevation, aspect and aspect degrees; the other
  fields are computed from at most four random draws, and the two results are
  identical whenever the next four draws of the generator coincide.
\<close>

theorem getTerrainMetrics_deterministic_up_to_draws:
  "elevation (fst (getTerrainMetrics h lat lon s1)) = elevation (fst (getTerrainMetrics h lat lon s2)) \<and>
   aspect (fst (getTerrainMetrics h lat lon s1)) = aspect (fst (getTerrainMetrics h lat lon s2)) \<and>
   aspectDegrees (fst (getTerrainMetrics h lat lon s1))
     = aspectDegrees (fst (getTerrainMetrics h lat lon s2)) \<and>
   (same_draws 4 s1 s2 \<longrightarrow>
      fst (getTerrainMetrics h lat lon s1) = fst (getTerrainMetrics h lat lon s2))"
proof -
  have "fst (getTerrainMetrics h lat lon s1) = fst (getTerrainMetrics h lat lon s2)"
    if "same_draws 4 s1 s2"
  proof -
    have e: "fst s1 (snd s1) = fst s2 (snd s2)"
      "fst s1 (Suc (snd s1)) = fst s2 (Suc (snd s2))"
      "fst s1 (Suc (Suc (snd s1))) = fst s2 (Suc (Suc (snd s2)))"
      "fst s1 (Suc (Suc (Suc (snd s1)))) = fst s2 (Suc (Suc (Suc (snd s2))))"
      using that by (simp_all add: same_draws_def upt_conv_Cons)
    show ?thesis
      by (simp add: getTerrainMetrics_def Let_def split_def Math_random_def e)
  qed
  then show ?thesis by (simp add: getTerrainMetrics_located_fields)
qed

theorem getTerrainMetrics_deterministic_up_to_draws_witness:
  "same_draws 4 draws_half ((\<lambda>i. if i < 9 then 1 / 2 else 0), 3) \<and>
   fst (getTerrainMetrics sample_host 37 (- 120) draws_half)
     = fst (getTerrainMetrics sample_host 37 (- 120) ((\<lambda>i. if i < 9 then 1 / 2 else 0), 3))"
proof -
  have s: "same_draws 4 draws_half ((\<lambda>i. if i < 9 then 1 / 2 else 0), 3)"
    by (simp add: same_draws_def draws_half_def upt_conv_Cons)
  with getTerrainMetrics_deterministic_up_to_draws
         [of sample_host 37 "- 120" draws_half "((\<lambda>i. if i < 9 then 1 / 2 else 0), 3)"]
  show ?thesis by simp
qed

section \<open>Properties of the spread index and predictor\<close>

subsection \<open>Radius search\<close>

lemma slice_to_is_take: "\<exists>k. slice_to limit xs = take k xs"
  by (auto simp: slice_to_def)

lemma length_slice_to:
  assumes "0 \<le> limit"
  shows "int (length (slice_to limit xs)) \<le> limit"
  using assms by (simp add: slice_to_def)

lemma findFiresNearLocation_shape:
  "\<exists>k items.
      findFiresNearLocation idx lat lon radiusKm limit
        = map fst (take k (sort_key snd items)) \<and>
      (\<forall>item \<in> set items. snd item = center_distance lat lon (fst item) \<and> snd item \<le> radiusKm)"
proof -
  define candidates where
    "candidates = concat (map (\<lambda>key. case byLocation idx key of
                                         None \<Rightarrow> []
                                       | Some fires \<Rightarrow> fires)
                              (grid_keys_around lat lon radiusKm))"
  define items where
    "items = filter (\<lambda>item. snd item \<le> radiusKm)
               (map (\<lambda>fire. (fire, center_distance lat lon fire)) candidates)"
  obtain k where k: "slice_to limit (sort_key snd items) = take k (sort_key snd items)"
    using slice_to_is_take by blast
  have "findFiresNearLocation idx lat lon radiusKm limit = map fst (take k (sort_key snd items))"
    unfolding findFiresNearLocation_def Let_def candidates_def [symmetric] items_def [symmetric]
    using k by simp
  moreover have "\<forall>item \<in> set items.
      snd item = center_distance lat lon (fst item) \<and> snd item \<le> radiusKm"
    by (auto simp: items_def)
  ultimately show ?thesis by blast
qed

text \<open>
  Claim C5. For every query point, radius and limit, every fire returned by
  \<open>findFiresNearLocation\<close> has haversine distance from the query point to the centre
  of its bounds at most the radius, and the returned list is sorted ascending by that
  distance; for every limit that is not negative the length of the list is at most the
  limit.
\<close>

theorem findFiresNearLocation_within_radius_sorted_limited:
  "list_all (\<lambda>fire. calculateDistance lat lon (centerLat (bounds fire)) (centerLon (bounds fire))
                      \<le> radiusKm)
      (findFiresNearLocation idx lat lon radiusKm limit) \<and>
   sorted (map (\<lambda>fire. calculateDistance lat lon (centerLat (bounds fire)) (centerLon (bounds fire)))
              (findFiresNearLocation idx lat lon radiusKm limit)) \<and>
   (0 \<le> limit \<longrightarrow> int (length (findFiresNearLocation idx lat lon radiusKm limit)) \<le> limit)"
proof -
  obtain k items where
    res: "findFiresNearLocation idx lat lon radiusKm limit = map fst (take k (sort_key snd items))"
    and inv: "\<forall>item \<in> set items.
                snd item = center_distance lat lon (fst item) \<and> snd item \<le> radiusKm"
    using findFiresNearLocation_shape by blast
  define chosen where "chosen = take k (sort_key snd items)"
  have sub: "set chosen \<subseteq> set items"
    unfolding chosen_def using set_take_subset [of k "sort_key snd items"] by simp
  have eq: "\<forall>item \<in> set chosen. center_distance lat lon (fst item) = snd item"
    using sub inv by fastforce
  have dist: "map (\<lambda>item. center_distance lat lon (fst item)) chosen = map snd chosen"
    by (rule map_cong [OF refl]) (simp add: eq)
  have "\<forall>item \<in> set chosen. center_distance lat lon (fst item) \<le> radiusKm"
    using sub inv by fastforce
  then have a: "list_all (\<lambda>fire. center_distance lat lon fire \<le> radiusKm) (map fst chosen)"
    by (simp add: list_all_iff)
  have "sorted (map snd (sort_key snd items))" by (rule sorted_sort_key)
  then have "sorted (take k (map snd (sort_key snd items)))" by (rule sorted_wrt_take)
  then have "sorted (map snd chosen)" by (simp add: chosen_def take_map)
  then have b: "sorted (map (center_distance lat lon) (map fst chosen))"
    by (simp add: o_def dist)
  have c: "0 \<le> limit \<longrightarrow> int (length (findFiresNearLocation idx lat lon radiusKm limit)) \<le> limit"
    by (simp add: findFiresNearLocation_def Let_def length_slice_to)
  have cd: "center_distance lat lon
              = (\<lambda>fire. calculateDistance lat lon (centerLat (bounds fire)) (centerLon (bounds fire)))"
    by (rule ext) (simp add: center_distance_def)
  from a b c show ?thesis unfolding res chosen_def [symmetric] cd by simp
qed

text \<open>Running the search on the concrete index: all five fires are at distance 0.\<close>

lemma calculateDistance_same_point: "calculateDistance lat lon lat lon = 0"
  by (simp add: calculateDistance_def atan2_def)

lemma grid_keys_of_sample_point:
  "grid_keys_around 37 (- 120) 100
     = [(72, - 242), (72, - 241), (72, - 240), (72, - 239), (72, - 238),
        (73, - 242), (73, - 241), (73, - 240), (73, - 239), (73, - 238),
        (74, - 242), (74, - 241), (74, - 240), (74, - 239), (74, - 238),
        (75, - 242), (75, - 241), (75, - 240), (75, - 239), (75, - 238),
        (76, - 242), (76, - 241), (76, - 240), (76, - 239), (76, - 238)]"
  by code_simp

lemma sample_candidates:
  "concat (map (\<lambda>key. case byLocation (index_of_cell fires) key of
                           None \<Rightarrow> []
                         | Some fs \<Rightarrow> fs)
               (grid_keys_around 37 (- 120) 100)) = fires"
  by (simp add: grid_keys_of_sample_point index_of_cell_def)

lemma sample_distance: "center_distance 37 (- 120) (oak_fire y) = 0"
  by (simp add: center_distance_def oak_fire_def calculateDistance_same_point)

lemma map_slice_to: "map f (slice_to limit xs) = slice_to limit (map f xs)"
  by (simp add: slice_to_def take_map)

lemma sample_search:
  "findFiresNearLocation (index_of_cell five_fires) 37 (- 120) 100 limit
     = slice_to limit five_fires"
proof -
  have "sort_key snd (filter (\<lambda>item. snd item \<le> 100)
           (map (\<lambda>fire. (fire, center_distance 37 (- 120) fire)) five_fires))
          = map (\<lambda>fire. (fire, 0)) five_fires"
    by (simp add: five_fires_def sample_distance)
  then show ?thesis
    by (simp add: findFiresNearLocation_def sample_candidates Let_def map_slice_to o_def)
qed

theorem findFiresNearLocation_within_radius_sorted_limited_witness:
  "findFiresNearLocation (index_of_cell five_fires) 37 (- 120) 100 3
     = [oak_fire 2016, oak_fire 2020, oak_fire 2018] \<and>
   list_all (\<lambda>fire. calculateDistance 37 (- 120) (centerLat (bounds fire)) (centerLon (bounds fire))
                      \<le> 100)
      (findFiresNearLocation (index_of_cell five_fires) 37 (- 120) 100 3) \<and>
   sorted (map (\<lambda>fire. calculateDistance 37 (- 120) (centerLat (bounds fire)) (centerLon (bounds fire)))
              (findFiresNearLocation (index_of_cell five_fires) 37 (- 120) 100 3)) \<and>
   int (length (findFiresNearLocation (index_of_cell five_fires) 37 (- 120) 100 3)) \<le> 3"
proof -
  have "slice_to 3 five_fires = [oak_fire 2016, oak_fire 2020, oak_fire 2018]"
    by (simp add: slice_to_def five_fires_def)
  then have "findFiresNearLocation (index_of_cell five_fires) 37 (- 120) 100 3
          = [oak_fire 2016, oak_fire 2020, oak_fire 2018]"
    using sample_search [of 3] by simp
  with findFiresNearLocation_within_radius_sorted_limited
         [of 37 "- 120" 100 "index_of_cell five_fires" 3]
  show ?thesis by simp
qed

subsection \<open>Prediction confidence\<close>

lemma confidence_for_monotone:
  "m \<le> n \<Longrightarrow> confidence_rank (confidence_for m) \<le> confidence_rank (confidence_for n)"
  by (simp add: confidence_for_def)

lemma length_findSimilarFires:
  assumes "0 \<le> limit"
  shows "int (length (findSimilarFires idx incident radiusKm limit)) \<le> limit"
  using assms by (simp add: findSimilarFires_def Let_def length_slice_to)

lemma predictSpreadPattern_count:
  "similarFires (predictSpreadPattern h idx incident windDeg)
     = findSimilarFires idx incident 100 15"
  by (simp add: predictSpreadPattern_def Let_def)

text \<open>
  Claim C6. The confidence of \<open>predictSpreadPattern\<close> is a monotone function of the
  number \<open>n\<close> of analogs, and \<open>n\<close> is at most 15: \<open>n = 0\<close> yields likelyDirection
  \<open>UNKNOWN\<close>, confidence low and the single reasoning string that none were found;
  \<open>1 \<le> n \<le> 4\<close> yields low, \<open>5 \<le> n \<le> 9\<close> medium and \<open>n \<ge> 10\<close> high.
\<close>

theorem predictSpreadPattern_confidence_by_count:
  "length (similarFires (predictSpreadPattern h idx incident windDeg)) \<le> 15 \<and>
   prediction_confidence (prediction (predictSpreadPattern h idx incident windDeg))
     = confidence_for (length (similarFires (predictSpreadPattern h idx incident windDeg))) \<and>
   (\<forall>m n. m \<le> n \<longrightarrow> confidence_rank (confidence_for m) \<le> confidence_rank (confidence_for n)) \<and>
   (length (similarFires (predictSpreadPattern h idx incident windDeg)) = 0 \<longrightarrow>
      likelyDirection (prediction (predictSpreadPattern h idx incident windDeg)) = ''UNKNOWN'' \<and>
      prediction_confidence (prediction (predictSpreadPattern h idx incident windDeg)) = Low \<and>
      prediction_reasoning (prediction (predictSpreadPattern h idx incident windDeg))
        = [''No similar historical fires found in the area'']) \<and>
   (1 \<le> length (similarFires (predictSpreadPattern h idx incident windDeg)) \<and>
    length (similarFires (predictSpreadPattern h idx incident windDeg)) \<le> 4 \<longrightarrow>
      prediction_confidence (prediction (predictSpreadPattern h idx incident windDeg)) = Low) \<and>
   (5 \<le> length (similarFires (predictSpreadPattern h idx incident windDeg)) \<and>
    length (similarFires (predictSpreadPattern h idx incident windDeg)) \<le> 9 \<longrightarrow>
      prediction_confidence (prediction (predictSpreadPattern h idx incident windDeg)) = Medium) \<and>
   (10 \<le> length (similarFires (predictSpreadPattern h idx incident windDeg)) \<longrightarrow>
      prediction_confidence (prediction (predictSpreadPattern h idx incident windDeg)) = High)"
proof -
  define r where "r = predictSpreadPattern h idx incident windDeg"
  define n where "n = length (similarFires r)"
  have sim: "similarFires r = findSimilarFires idx incident 100 15"
    unfolding r_def by (rule predictSpreadPattern_count)
  have "int n \<le> 15" unfolding n_def sim by (rule length_findSimilarFires) simp
  then have a: "n \<le> 15" by simp
  have conf: "prediction_confidence (prediction r) = confidence_for n"
    unfolding n_def sim unfolding r_def
    by (simp add: predictSpreadPattern_def Let_def confidence_for_def)
  have zero: "n = 0 \<longrightarrow>
      likelyDirection (prediction r) = ''UNKNOWN'' \<and>
      prediction_confidence (prediction r) = Low \<and>
      prediction_reasoning (prediction r) = [''No similar historical fires found in the area'']"
    unfolding n_def sim unfolding r_def by (simp add: predictSpreadPattern_def Let_def)
  have mono: "\<forall>m n. m \<le> n \<longrightarrow>
      confidence_rank (confidence_for m) \<le> confidence_rank (confidence_for n)"
    using confidence_for_monotone by blast
  have bands: "(1 \<le> n \<and> n \<le> 4 \<longrightarrow> confidence_for n = Low) \<and>
               (5 \<le> n \<and> n \<le> 9 \<longrightarrow> confidence_for n = Medium) \<and>
               (10 \<le> n \<longrightarrow> confidence_for n = High)"
    by (simp add: confidence_for_def)
  from a conf zero mono bands show ?thesis
    unfolding n_def r_def by simp
qed

lemma sample_similar:
  "findSimilarFires (index_of_cell five_fires) grass_incident 100 15
     = map oak_fire [2021, 2020, 2018, 2017, 2016]"
proof -
  have y: "year (oak_fire y) = y" for y by (simp add: oak_fire_def)
  have near: "findFiresNearLocation (index_of_cell five_fires) 37 (- 120) 100 30 = five_fires"
    using sample_search [of 30] by (simp add: slice_to_def five_fires_def)
  have sorted_years: "sort_key (\<lambda>fire. - year fire) five_fires
          = map oak_fire [2021, 2020, 2018, 2017, 2016]"
    by (simp add: five_fires_def y)
  have "findSimilarFires (index_of_cell five_fires) grass_incident 100 15
          = slice_to 15 (sort_key (\<lambda>fire. - year fire)
              (findFiresNearLocation (index_of_cell five_fires) 37 (- 120) 100 30))"
    by (simp add: findSimilarFires_def grass_incident_def Let_def)
  then show ?thesis unfolding near sorted_years by (simp add: slice_to_def)
qed

theorem predictSpreadPattern_confidence_by_count_witness:
  "length (similarFires
             (predictSpreadPattern sample_host (index_of_cell five_fires) grass_incident 270)) = 5 \<and>
   prediction_confidence
     (prediction (predictSpreadPattern sample_host (index_of_cell five_fires) grass_incident 270))
     = Medium"
proof -
  have "length (similarFires
          (predictSpreadPattern sample_host (index_of_cell five_fires) grass_incident 270)) = 5"
    by (simp add: predictSpreadPattern_count sample_similar)
  with predictSpreadPattern_confidence_by_count
         [of sample_host "index_of_cell five_fires" grass_incident 270]
  show ?thesis by (simp add: confidence_for_def)
qed

end
